theory Spec2Isabelle
  imports Complex_Main
begin

section \<open>Numbers and vectors\<close>

text \<open>
  The controller is written in JavaScript on top of the three.js vector classes. JavaScript
  numbers are modelled as real numbers: the arithmetic of the model is exact, the rounding of
  IEEE doubles is not modelled. Time stamps (\<^verbatim>\<open>performance.now()\<close>, milliseconds) and the
  frame time are reals as well; the jump counter, which the source only sets to 0 and 1 and
  increments, is an integer.

  \<^verbatim>\<open>Vector3\<close>, \<^verbatim>\<open>Euler\<close> and \<^verbatim>\<open>Quaternion\<close> are classes of the three.js library. Only the
  methods the player code calls are modelled; every method returns the updated vector
  instead of mutating its receiver.
\<close>

record Vector3 =
  vec_x :: real
  vec_y :: real
  vec_z :: real

record Euler =
  eul_x :: real
  eul_y :: real
  eul_z :: real

record Quaternion =
  quat_x :: real
  quat_y :: real
  quat_z :: real
  quat_w :: real

definition Vector3_new :: "real \<Rightarrow> real \<Rightarrow> real \<Rightarrow> Vector3" where
  "Vector3_new a b c = \<lparr>vec_x = a, vec_y = b, vec_z = c\<rparr>"

definition Euler_new :: "real \<Rightarrow> real \<Rightarrow> real \<Rightarrow> Euler" where
  "Euler_new a b c = \<lparr>eul_x = a, eul_y = b, eul_z = c\<rparr>"

definition lengthSq :: "Vector3 \<Rightarrow> real" where
  "lengthSq v = vec_x v * vec_x v + vec_y v * vec_y v + vec_z v * vec_z v"

definition vec_length :: "Vector3 \<Rightarrow> real" where
  \<comment> \<open>\<^verbatim>\<open>Vector3.length()\<close>\<close>
  "vec_length v = sqrt (vec_x v * vec_x v + vec_y v * vec_y v + vec_z v * vec_z v)"

definition multiplyScalar :: "Vector3 \<Rightarrow> real \<Rightarrow> Vector3" where
  "multiplyScalar v s = \<lparr>vec_x = vec_x v * s, vec_y = vec_y v * s, vec_z = vec_z v * s\<rparr>"

definition divideScalar :: "Vector3 \<Rightarrow> real \<Rightarrow> Vector3" where
  "divideScalar v s = multiplyScalar v (1 / s)"

definition normalize :: "Vector3 \<Rightarrow> Vector3" where
  \<comment> \<open>\<^verbatim>\<open>this.divideScalar(this.length() || 1)\<close>\<close>
  "normalize v = divideScalar v (if vec_length v = 0 then 1 else vec_length v)"

definition addVectors :: "Vector3 \<Rightarrow> Vector3 \<Rightarrow> Vector3" where
  "addVectors a b =
     \<lparr>vec_x = vec_x a + vec_x b, vec_y = vec_y a + vec_y b, vec_z = vec_z a + vec_z b\<rparr>"

definition subVectors :: "Vector3 \<Rightarrow> Vector3 \<Rightarrow> Vector3" where
  "subVectors a b =
     \<lparr>vec_x = vec_x a - vec_x b, vec_y = vec_y a - vec_y b, vec_z = vec_z a - vec_z b\<rparr>"

definition addScaledVector :: "Vector3 \<Rightarrow> Vector3 \<Rightarrow> real \<Rightarrow> Vector3" where
  "addScaledVector v w s =
     \<lparr>vec_x = vec_x v + vec_x w * s, vec_y = vec_y v + vec_y w * s, vec_z = vec_z v + vec_z w * s\<rparr>"

definition dot :: "Vector3 \<Rightarrow> Vector3 \<Rightarrow> real" where
  "dot a b = vec_x a * vec_x b + vec_y a * vec_y b + vec_z a * vec_z b"

definition setFromEuler :: "Euler \<Rightarrow> Quaternion" where
  \<comment> \<open>\<^verbatim>\<open>Quaternion.setFromEuler\<close> for the default rotation order XYZ\<close>
  "setFromEuler e =
     (let c1 = cos (eul_x e / 2); c2 = cos (eul_y e / 2); c3 = cos (eul_z e / 2);
          s1 = sin (eul_x e / 2); s2 = sin (eul_y e / 2); s3 = sin (eul_z e / 2)
      in \<lparr>quat_x = s1 * c2 * c3 + c1 * s2 * s3,
          quat_y = c1 * s2 * c3 - s1 * c2 * s3,
          quat_z = c1 * c2 * s3 + s1 * s2 * c3,
          quat_w = c1 * c2 * c3 - s1 * s2 * s3\<rparr>)"

definition applyQuaternion :: "Vector3 \<Rightarrow> Quaternion \<Rightarrow> Vector3" where
  \<comment> \<open>\<^verbatim>\<open>v + q.w * t + cross(q.xyz, t)\<close> with \<^verbatim>\<open>t = 2 * cross(q.xyz, v)\<close>\<close>
  "applyQuaternion v q =
     (let tx = 2 * (quat_y q * vec_z v - quat_z q * vec_y v);
          ty = 2 * (quat_z q * vec_x v - quat_x q * vec_z v);
          tz = 2 * (quat_x q * vec_y v - quat_y q * vec_x v)
      in \<lparr>vec_x = vec_x v + quat_w q * tx + quat_y q * tz - quat_z q * ty,
          vec_y = vec_y v + quat_w q * ty + quat_z q * tx - quat_x q * tz,
          vec_z = vec_z v + quat_w q * tz + quat_x q * ty - quat_y q * tx\<rparr>)"

definition horizontal :: "Vector3 \<Rightarrow> Vector3" where
  \<comment> \<open>\<^verbatim>\<open>new Vector3(velocity.x, 0, velocity.z)\<close>\<close>
  "horizontal v = Vector3_new (vec_x v) 0 (vec_z v)"

section \<open>State of the player\<close>

text \<open>
  The physics body is an object of the physics layer; the player reads its position and
  ground flag and reads and writes its velocity.
\<close>

record PhysicsBody =
  body_position :: Vector3
  body_velocity :: Vector3
  body_onGround :: bool

text \<open>The mutable fields of \<^verbatim>\<open>Movement\<close> (Movement.js, constructor).\<close>

record Movement =
  moveDirection :: Vector3
  targetVelocity :: Vector3
  lastMoveInput :: Vector3
  lastDirection :: Vector3
  lastSpeed :: real
  directionChangeTime :: real
  hasChangedDirection :: bool

text \<open>
  The tuning parameters of \<^verbatim>\<open>Movement\<close> are assigned once in its constructor and never
  written again; they are constants of the model.
\<close>

definition walkSpeed :: real where "walkSpeed = 6.0"
definition runSpeed :: real where "runSpeed = 10.0"
definition maxSpeed :: real where "maxSpeed = 12.0"
definition groundAcceleration :: real where "groundAcceleration = 150.0"
definition airAcceleration :: real where "airAcceleration = 20.0"
definition groundFriction :: real where "groundFriction = 0.5"
definition airFriction :: real where "airFriction = 0.05"
definition momentumRetention :: real where "momentumRetention = 0.9"
definition dirChangeBoostMultiplier :: real where "dirChangeBoostMultiplier = 4.0"
definition jumpForce :: real where "jumpForce = 7.5"
definition jumpBoostForward :: real where "jumpBoostForward = 0.2"
definition airControl :: real where "airControl = 0.9"
definition directionChangeThreshold :: real where "directionChangeThreshold = 0.85"

text \<open>
  The fields of \<^verbatim>\<open>Player\<close> (Player.js, constructor). \<^verbatim>\<open>jumpBufferWindow\<close> and
  \<^verbatim>\<open>coyoteTime\<close> are assigned once in the constructor; \<^verbatim>\<open>maxJumps\<close> and
  \<^verbatim>\<open>mouseSensitivity\<close> come from the engine configuration and stay fields.
\<close>

definition jumpBufferWindow :: real where "jumpBufferWindow = 200"
definition coyoteTime :: real where "coyoteTime = 150"

record Player =
  position :: Vector3
  velocity :: Vector3
  viewRotation :: Euler
  moveInput :: Vector3
  isJumping :: bool
  isSprinting :: bool
  jumpCount :: int
  maxJumps :: int
  onGround :: bool
  lastJumpTime :: real
  jumpRequested :: bool
  jumpBufferTime :: real
  lastGroundedTime :: real
  physicsBody :: PhysicsBody
  movement :: Movement
  mouseSensitivity :: real

definition Movement_new :: Movement where
  "Movement_new =
     \<lparr>moveDirection = Vector3_new 0 0 0, targetVelocity = Vector3_new 0 0 0,
      lastMoveInput = Vector3_new 0 0 0, lastDirection = Vector3_new 0 0 0,
      lastSpeed = 0, directionChangeTime = 0, hasChangedDirection = False\<rparr>"

definition config_or :: "'a::zero option \<Rightarrow> 'a \<Rightarrow> 'a" where
  \<comment> \<open>\<^verbatim>\<open>engine.config.name || dflt\<close>: a missing or zero entry gives the default\<close>
  "config_or c dflt = (case c of None \<Rightarrow> dflt | Some v \<Rightarrow> if v = 0 then dflt else v)"

definition Player_new :: "int option \<Rightarrow> real option \<Rightarrow> PhysicsBody \<Rightarrow> Player" where
  \<comment> \<open>the constructor. Its arguments are the configuration entries \<^verbatim>\<open>maxJumps\<close> and
      \<^verbatim>\<open>mouseSpeed\<close> and the object that \<^verbatim>\<open>new PhysicsBody({...})\<close> returns: that class
      belongs to the physics layer, which decides the initial velocity and ground flag.\<close>
  "Player_new cfg_maxJumps cfg_mouseSpeed body =
     \<lparr>position = Vector3_new 0 2 0, velocity = Vector3_new 0 0 0,
      viewRotation = Euler_new 0 0 0, moveInput = Vector3_new 0 0 0,
      isJumping = False, isSprinting = False, jumpCount = 0,
      maxJumps = config_or cfg_maxJumps 2, onGround = False, lastJumpTime = 0,
      jumpRequested = False, jumpBufferTime = 0, lastGroundedTime = 0,
      physicsBody = body, movement = Movement_new,
      mouseSensitivity = config_or cfg_mouseSpeed 0.002\<rparr>"

section \<open>Jump processing (Player.js)\<close>

definition setVelocityY :: "real \<Rightarrow> Player \<Rightarrow> Player" where
  \<comment> \<open>\<^verbatim>\<open>this.physicsBody.velocity.y = v\<close>\<close>
  "setVelocityY v p =
     p\<lparr>physicsBody := (physicsBody p)\<lparr>body_velocity := (body_velocity (physicsBody p))\<lparr>vec_y := v\<rparr>\<rparr>\<rparr>"

definition applyJumpBoost :: "Player \<Rightarrow> Player" where
  \<comment> \<open>\<^verbatim>\<open>Movement.applyJumpBoost\<close>: raises the one-shot flag \<^verbatim>\<open>player.isJumping\<close>\<close>
  "applyJumpBoost p =
     (if lengthSq (moveDirection (movement p)) > 0 \<and> onGround p then p\<lparr>isJumping := True\<rparr> else p)"

definition processJump :: "real \<Rightarrow> Player \<Rightarrow> bool \<times> Player" where
  \<comment> \<open>\<^verbatim>\<open>Player.processJump\<close>; the first argument is the clock value the method reads\<close>
  "processJump currentTime p =
     (let inCoyoteTime = currentTime - lastGroundedTime p < coyoteTime;
          canFirstJump = onGround p \<or> inCoyoteTime
      in if currentTime - lastJumpTime p < 100 then (False, p)
         else if canFirstJump \<and> jumpCount p = 0 then
           (True, applyJumpBoost
                    ((setVelocityY jumpForce p)\<lparr>jumpCount := 1, lastJumpTime := currentTime\<rparr>))
         else if \<not> canFirstJump \<and> jumpCount p < maxJumps p then
           (True, (setVelocityY (jumpForce * 0.9) p)
                    \<lparr>jumpCount := jumpCount p + 1, lastJumpTime := currentTime\<rparr>)
         else (False, p))"

text \<open>
  \<^verbatim>\<open>Player.update\<close> runs three steps in sequence: it mirrors the physics body and tracks the
  ground flag (lines 134-150), it processes a latched jump request (lines 152-165), and it
  calls \<^verbatim>\<open>Movement.update\<close> (line 168). The first two steps are \<open>update_ground\<close> and
  \<open>update_jump\<close>.
\<close>

definition update_ground :: "real \<Rightarrow> Player \<Rightarrow> Player" where
  "update_ground currentTime p =
     (let wasOnGround = onGround p;
          p1 = p\<lparr>position := body_position (physicsBody p),
                 velocity := body_velocity (physicsBody p),
                 onGround := body_onGround (physicsBody p)\<rparr>;
          p2 = (if onGround p1 \<and> \<not> wasOnGround then p1\<lparr>jumpCount := 0\<rparr> else p1)
      in if \<not> onGround p2 \<and> wasOnGround then p2\<lparr>lastGroundedTime := currentTime\<rparr> else p2)"

definition update_jump :: "real \<Rightarrow> real \<Rightarrow> Player \<Rightarrow> Player" where
  \<comment> \<open>\<open>currentTime\<close> is the clock value read by \<^verbatim>\<open>update\<close>, \<open>jumpTime\<close> the one read by \<^verbatim>\<open>processJump\<close>\<close>
  "update_jump currentTime jumpTime p =
     (if jumpRequested p then
        (let jumpBuffer = currentTime - jumpBufferTime p < jumpBufferWindow
         in if jumpBuffer then
              (case processJump jumpTime p of
                 (jumpSucceeded, p') \<Rightarrow> if jumpSucceeded then p'\<lparr>jumpRequested := False\<rparr> else p')
            else p\<lparr>jumpRequested := False\<rparr>)
      else p)"

section \<open>Locomotion (Movement.js)\<close>

definition setVelocityXZ :: "real \<Rightarrow> real \<Rightarrow> Player \<Rightarrow> Player" where
  \<comment> \<open>\<^verbatim>\<open>physicsBody.velocity.x = a; physicsBody.velocity.z = b\<close>\<close>
  "setVelocityXZ a b p =
     p\<lparr>physicsBody := (physicsBody p)
         \<lparr>body_velocity := (body_velocity (physicsBody p))\<lparr>vec_x := a, vec_z := b\<rparr>\<rparr>\<rparr>"

definition calculateMoveDirection :: "Vector3 \<Rightarrow> Player \<Rightarrow> Player" where
  "calculateMoveDirection mi p =
     (let rotation = setFromEuler (Euler_new 0 (eul_y (viewRotation p)) 0);
          forward0 = (applyQuaternion (Vector3_new 0 0 (- 1)) rotation)\<lparr>vec_y := 0\<rparr>;
          right0 = (applyQuaternion (Vector3_new 1 0 0) rotation)\<lparr>vec_y := 0\<rparr>;
          forward = (if lengthSq forward0 > 0 then normalize forward0 else forward0);
          right = (if lengthSq right0 > 0 then normalize right0 else right0);
          d = addScaledVector (addScaledVector (Vector3_new 0 0 0) forward (- vec_z mi))
                right (vec_x mi)
      in p\<lparr>movement := (movement p)
             \<lparr>moveDirection := (if lengthSq d > 0 then normalize d else d)\<rparr>\<rparr>)"

definition detectDirectionChange :: "real \<Rightarrow> Player \<Rightarrow> Player" where
  \<comment> \<open>the first argument is the clock value the method reads\<close>
  "detectDirectionChange now p =
     (let m = movement p
      in if lengthSq (lastDirection m) = 0 then p\<lparr>movement := m\<lparr>hasChangedDirection := False\<rparr>\<rparr>
         else
           (let dotProduct = dot (lastDirection m) (moveDirection m)
            in if dotProduct < directionChangeThreshold then
                 p\<lparr>movement := m\<lparr>hasChangedDirection := True, directionChangeTime := now\<rparr>\<rparr>
               else
                 p\<lparr>movement := m\<lparr>hasChangedDirection :=
                        (hasChangedDirection m \<and> now - directionChangeTime m < 100)\<rparr>\<rparr>))"

text \<open>
  \<^verbatim>\<open>applyAccelerationWithMomentum\<close> computes \<^verbatim>\<open>newVelocity\<close> by one of two blending
  regimes (lines 131-173, \<open>blendVelocity\<close>), limits its length (lines 175-179,
  \<open>limitSpeed\<close>), writes it to the body and adds the jump boost (lines 181-192).
\<close>

definition currentVelocity :: "Player \<Rightarrow> Vector3" where
  "currentVelocity p = horizontal (body_velocity (physicsBody p))"

definition blendVelocity :: "real \<Rightarrow> Player \<Rightarrow> Vector3" where
  "blendVelocity deltaTime p =
     (let cur = currentVelocity p;
          currentSpeed = vec_length cur;
          m = movement p
      in if hasChangedDirection m \<and> currentSpeed > 2.0 then
           addScaledVector (multiplyScalar cur momentumRetention) (targetVelocity m)
             (1.0 - momentumRetention)
         else
           (let accel0 = (if onGround p then groundAcceleration else airAcceleration);
                accel1 = (if currentSpeed < 2.0 \<or> hasChangedDirection m
                          then accel0 * dirChangeBoostMultiplier else accel0);
                accel = (if \<not> onGround p then accel1 * airControl else accel1);
                velocityDelta = multiplyScalar (subVectors (targetVelocity m) cur)
                                  (min (accel * deltaTime) 1.0)
            in addVectors cur velocityDelta))"

definition limitSpeed :: "Vector3 \<Rightarrow> Vector3" where
  "limitSpeed newVelocity =
     (let newSpeed = vec_length newVelocity
      in if newSpeed > maxSpeed then multiplyScalar newVelocity (maxSpeed / newSpeed)
         else newVelocity)"

definition applyAccelerationWithMomentum :: "real \<Rightarrow> Player \<Rightarrow> Player" where
  "applyAccelerationWithMomentum deltaTime p =
     (let newVelocity = limitSpeed (blendVelocity deltaTime p);
          p1 = setVelocityXZ (vec_x newVelocity) (vec_z newVelocity) p
      in if isJumping p1 \<and> jumpCount p1 = 1 then
           (let forwardBoost = multiplyScalar (moveDirection (movement p1))
                                 (jumpBoostForward * walkSpeed);
                v = body_velocity (physicsBody p1)
            in (setVelocityXZ (vec_x v + vec_x forwardBoost) (vec_z v + vec_z forwardBoost) p1)
                 \<lparr>isJumping := False\<rparr>)
         else p1)"

definition applyFriction :: "real \<Rightarrow> Player \<Rightarrow> Player" where
  "applyFriction deltaTime p =
     (let v = body_velocity (physicsBody p);
          speed = vec_length (horizontal v)
      in if speed < 0.01 then setVelocityXZ 0 0 p
         else
           (let friction0 = (if onGround p then groundFriction else airFriction);
                friction = (if speed > 5.0 then friction0 * 0.5 else friction0);
                damping = max 0 (1 - friction * deltaTime)
            in setVelocityXZ (vec_x v * damping) (vec_z v * damping) p))"

definition Movement_update :: "real \<Rightarrow> real \<Rightarrow> Player \<Rightarrow> Player" where
  \<comment> \<open>\<^verbatim>\<open>Movement.update(deltaTime)\<close>; \<open>now\<close> is the clock value read by \<^verbatim>\<open>detectDirectionChange\<close>\<close>
  "Movement_update now deltaTime p =
     (let mi0 = moveInput p
      in if lengthSq mi0 = 0 then
           (let p1 = applyFriction deltaTime p
            in p1\<lparr>movement := (movement p1)\<lparr>lastMoveInput := mi0\<rparr>\<rparr>)
         else
           (let mi = (if lengthSq mi0 > 1 then normalize mi0 else mi0);
                p1 = calculateMoveDirection mi p;
                p2 = detectDirectionChange now p1;
                speed = (if isSprinting p2 then runSpeed else walkSpeed);
                p3 = p2\<lparr>movement := (movement p2)
                        \<lparr>targetVelocity := multiplyScalar (moveDirection (movement p2)) speed\<rparr>\<rparr>;
                p4 = applyAccelerationWithMomentum deltaTime p3
            in p4\<lparr>movement := (movement p4)
                   \<lparr>lastMoveInput := mi,
                    lastDirection := moveDirection (movement p4),
                    lastSpeed := vec_length (body_velocity (physicsBody p4))\<rparr>\<rparr>))"

section \<open>The tick and the events between ticks\<close>

text \<open>
  The source reads \<^verbatim>\<open>performance.now()\<close> separately in \<^verbatim>\<open>Player.update\<close>, in
  \<^verbatim>\<open>processJump\<close> and in \<^verbatim>\<open>detectDirectionChange\<close>; a tick receives the three readings.
\<close>

record clock =
  now_update :: real
  now_jump :: real
  now_move :: real

definition Player_update :: "clock \<Rightarrow> real \<Rightarrow> Player \<Rightarrow> Player" where
  "Player_update clk deltaTime p =
     Movement_update (now_move clk) deltaTime
       (update_jump (now_update clk) (now_jump clk) (update_ground (now_update clk) p))"

text \<open>
  Between two ticks the key and mouse handlers of \<^verbatim>\<open>setupInputBindings\<close> write the input
  fields, the physics world (a collaborator outside the player code) rewrites the body, and
  loading a map places the player at its spawn point.
\<close>

datatype key = KeyW | KeyS | KeyA | KeyD | Space | ShiftLeft

definition setMoveX :: "real \<Rightarrow> Player \<Rightarrow> Player" where
  "setMoveX a p = p\<lparr>moveInput := (moveInput p)\<lparr>vec_x := a\<rparr>\<rparr>"

definition setMoveZ :: "real \<Rightarrow> Player \<Rightarrow> Player" where
  "setMoveZ a p = p\<lparr>moveInput := (moveInput p)\<lparr>vec_z := a\<rparr>\<rparr>"

fun onKeyDown :: "key \<Rightarrow> real \<Rightarrow> Player \<Rightarrow> Player" where
  "onKeyDown KeyW t p = setMoveZ (- 1) p"
| "onKeyDown KeyS t p = setMoveZ 1 p"
| "onKeyDown KeyA t p = setMoveX (- 1) p"
| "onKeyDown KeyD t p = setMoveX 1 p"
| "onKeyDown Space t p = p\<lparr>jumpRequested := True, jumpBufferTime := t\<rparr>"
| "onKeyDown ShiftLeft t p = p\<lparr>isSprinting := True\<rparr>"

fun onKeyUp :: "key \<Rightarrow> Player \<Rightarrow> Player" where
  "onKeyUp KeyW p = setMoveZ 0 p"
| "onKeyUp KeyS p = setMoveZ 0 p"
| "onKeyUp KeyA p = setMoveX 0 p"
| "onKeyUp KeyD p = setMoveX 0 p"
| "onKeyUp Space p = p"
| "onKeyUp ShiftLeft p = p\<lparr>isSprinting := False\<rparr>"

definition rotate :: "real \<Rightarrow> real \<Rightarrow> Player \<Rightarrow> Player" where
  "rotate dx dy p =
     (let r = viewRotation p;
          ry = eul_y r - dx * mouseSensitivity p;
          rx = eul_x r - dy * mouseSensitivity p
      in p\<lparr>viewRotation := r\<lparr>eul_y := ry,
                                eul_x := max (- pi / 2 + 0.01) (min (pi / 2 - 0.01) rx)\<rparr>\<rparr>)"

definition setPlayerSpawn :: "Vector3 \<Rightarrow> real option \<Rightarrow> Player \<Rightarrow> Player" where
  \<comment> \<open>\<^verbatim>\<open>EntitySpawner.setPlayerSpawn\<close>: the spawn position, and the yaw when the map gives a rotation\<close>
  "setPlayerSpawn spawnPos rotation p =
     (let p1 = p\<lparr>position := spawnPos,
                   physicsBody := (physicsBody p)\<lparr>body_position := spawnPos\<rparr>\<rparr>
      in case rotation of
           None \<Rightarrow> p1
         | Some ry \<Rightarrow> p1\<lparr>viewRotation := (viewRotation p1)\<lparr>eul_y := ry\<rparr>\<rparr>)"

datatype event =
    KeyDown key real
  | KeyUp key
  | MouseMove real real
  | Physics PhysicsBody
  | Spawn Vector3 "real option"
  | Frame clock real

fun step :: "Player \<Rightarrow> event \<Rightarrow> Player" where
  "step p (KeyDown k t) = onKeyDown k t p"
| "step p (KeyUp k) = onKeyUp k p"
| "step p (MouseMove dx dy) = rotate dx dy p"
| "step p (Physics b) = p\<lparr>physicsBody := b\<rparr>"
| "step p (Spawn spawnPos rotation) = setPlayerSpawn spawnPos rotation p"
| "step p (Frame clk deltaTime) = Player_update clk deltaTime p"

fun run :: "Player \<Rightarrow> event list \<Rightarrow> Player" where
  "run p [] = p"
| "run p (e # es) = run (step p e) es"

section \<open>Auxiliary notions and example states\<close>

definition horizontalSpeed :: "Player \<Rightarrow> real" where
  \<comment> \<open>the length of the horizontal velocity of the body (\<^verbatim>\<open>currentSpeed\<close>, \<^verbatim>\<open>speed\<close>)\<close>
  "horizontalSpeed p = vec_length (horizontal (body_velocity (physicsBody p)))"

definition yawDirection :: "real \<Rightarrow> Vector3 \<Rightarrow> Vector3" where
  \<comment> \<open>closed form of the vector that \<^verbatim>\<open>calculateMoveDirection\<close> normalises, for yaw \<open>th\<close>\<close>
  "yawDirection th mi =
     Vector3_new (vec_z mi * sin th + vec_x mi * cos th) 0 (vec_z mi * cos th - vec_x mi * sin th)"

definition tick :: "real \<Rightarrow> clock" where
  \<comment> \<open>a tick whose three clock readings coincide\<close>
  "tick t = \<lparr>now_update = t, now_jump = t, now_move = t\<rparr>"

definition player0 :: Player where
  \<comment> \<open>the player as constructed under the configuration of main.js (no \<^verbatim>\<open>maxJumps\<close> entry),
      with a body at rest in the air\<close>
  "player0 =
     Player_new None None
       \<lparr>body_position = Vector3_new 0 2 0, body_velocity = Vector3_new 0 0 0,
        body_onGround = False\<rparr>"

definition cooling_player :: Player where
  \<comment> \<open>airborne after a jump at time 950, with a jump press latched at time 1000\<close>
  "cooling_player =
     player0\<lparr>jumpCount := 1, lastJumpTime := 950, jumpRequested := True, jumpBufferTime := 1000\<rparr>"

definition coyote_player :: Player where
  \<comment> \<open>walked off a ledge at time 990 while moving forward; jump press latched at time 1000\<close>
  "coyote_player =
     player0\<lparr>lastGroundedTime := 990, jumpRequested := True, jumpBufferTime := 1000,
             movement := Movement_new\<lparr>moveDirection := Vector3_new 0 0 (- 1),
                                      lastDirection := Vector3_new 0 0 (- 1)\<rparr>\<rparr>"

definition grounded_player :: Player where
  \<comment> \<open>standing on the ground, moving forward, with a jump press latched at time 1000\<close>
  "grounded_player =
     coyote_player\<lparr>onGround := True,
                   physicsBody := (physicsBody coyote_player)\<lparr>body_onGround := True\<rparr>\<rparr>"

definition aim :: "real \<Rightarrow> Player \<Rightarrow> Player" where
  \<comment> \<open>the state of \<^verbatim>\<open>Movement.update\<close> at line 73, before \<^verbatim>\<open>applyAccelerationWithMomentum\<close> is called\<close>
  "aim now p =
     (let mi0 = moveInput p;
          mi = (if lengthSq mi0 > 1 then normalize mi0 else mi0);
          p2 = detectDirectionChange now (calculateMoveDirection mi p);
          speed = (if isSprinting p2 then runSpeed else walkSpeed)
      in p2\<lparr>movement := (movement p2)
             \<lparr>targetVelocity := multiplyScalar (moveDirection (movement p2)) speed\<rparr>\<rparr>)"

definition landed_body :: PhysicsBody where
  "landed_body = \<lparr>body_position = Vector3_new 0 1 0, body_velocity = Vector3_new 0 0 0,
                   body_onGround = True\<rparr>"

definition double_jump_events :: "event list" where
  \<comment> \<open>two presses in the air, each consumed as an air jump, then the body touches the ground\<close>
  "double_jump_events =
     [KeyDown Space 1000, Frame (tick 1010) (1 / 120),
      KeyDown Space 1200, Frame (tick 1210) (1 / 120),
      Physics landed_body]"

definition resting_player :: Player where
  \<comment> \<open>at rest on the ground, looking along yaw 0, with the forward key held\<close>
  "resting_player =
     player0\<lparr>onGround := True, moveInput := Vector3_new 0 0 (- 1), physicsBody := landed_body\<rparr>"

definition turning_player :: Player where
  \<comment> \<open>moving forward on the ground at speed 8 when the input flips to backward\<close>
  "turning_player =
     player0\<lparr>onGround := True, moveInput := Vector3_new 0 0 1,
             physicsBody := landed_body\<lparr>body_velocity := Vector3_new 0 0 (- 8)\<rparr>,
             movement := Movement_new\<lparr>moveDirection := Vector3_new 0 0 (- 1),
                                      lastDirection := Vector3_new 0 0 (- 1)\<rparr>\<rparr>"

definition sliding_player :: Player where
  \<comment> \<open>on the ground with no key held while the body moves at speed 20\<close>
  "sliding_player =
     player0\<lparr>onGround := True,
             physicsBody := landed_body\<lparr>body_velocity := Vector3_new 20 0 0\<rparr>\<rparr>"

definition rushing_player :: Player where
  \<comment> \<open>on the ground, forward key held, body moving forward at speed 30, jump press latched at time 1000\<close>
  "rushing_player =
     grounded_player\<lparr>moveInput := Vector3_new 0 0 (- 1),
                     physicsBody := landed_body\<lparr>body_velocity := Vector3_new 0 0 (- 30)\<rparr>\<rparr>"

fun jump_press :: "event \<Rightarrow> bool" where
  \<comment> \<open>the event is a press of the jump key\<close>
  "jump_press (KeyDown k t) = (k = Space)"
| "jump_press e = False"

definition walk_events :: "event list" where
  \<comment> \<open>the body lands, the forward key goes down, one frame passes\<close>
  "walk_events = [Physics landed_body, KeyDown KeyW 0, Frame (tick 16) (1 / 60)]"

fun airborne_blocked :: "Player \<Rightarrow> event \<Rightarrow> bool" where
  \<comment> \<open>an event that neither latches a press nor grounds the body; a frame that, if it falls
      inside the buffer window of the press latched in \<open>p\<close> (the only frames on which
      \<^verbatim>\<open>processJump\<close> is called), finds the player outside the coyote window and unable to
      air-jump (cooldown running or no jumps left)\<close>
  "airborne_blocked p (KeyDown k t) = (k \<noteq> Space)"
| "airborne_blocked p (Physics b) = (\<not> body_onGround b)"
| "airborne_blocked p (Frame clk dt) =
     (now_update clk - jumpBufferTime p < jumpBufferWindow \<longrightarrow>
        \<not> now_jump clk - lastGroundedTime p < coyoteTime
        \<and> (now_jump clk - lastJumpTime p < 100 \<or> maxJumps p \<le> jumpCount p))"
| "airborne_blocked p e = True"

fun expiring :: "Player \<Rightarrow> event \<Rightarrow> bool" where
  \<comment> \<open>a frame whose clock is past the buffer window of the press latched in \<open>p\<close>\<close>
  "expiring p (Frame clk dt) = (\<not> now_update clk - jumpBufferTime p < jumpBufferWindow)"
| "expiring p e = False"

definition jump_state :: "Player \<Rightarrow> int \<times> int \<times> real \<times> real \<times> real \<times> bool \<times> bool" where
  \<comment> \<open>the fields that jump processing reads, other than the request flag\<close>
  "jump_state p =
     (jumpCount p, maxJumps p, lastJumpTime p, lastGroundedTime p, jumpBufferTime p,
      onGround p, body_onGround (physicsBody p))"

definition waiting_frames :: "event list" where
  "waiting_frames =
     [Frame (tick 1010) (1 / 120), Frame (tick 1110) (1 / 120), Frame (tick 1210) (1 / 120)]"

definition air_jump_events :: "event list" where
  \<comment> \<open>a jump press at time 1000 followed by three frames\<close>
  "air_jump_events = KeyDown Space 1000 # waiting_frames"

definition cooling_frames :: "event list" where
  \<comment> \<open>one frame inside the buffer window of a press at time 1000, one frame after it\<close>
  "cooling_frames = [Frame (tick 1010) (1 / 120), Frame (tick 1210) (1 / 120)]"

definition pressed_player :: Player where
  \<comment> \<open>the constructed player, in the air with the counter at 0, jump press latched at time 1000\<close>
  "pressed_player = player0\<lparr>jumpRequested := True, jumpBufferTime := 1000\<rparr>"

definition late_frames :: "event list" where
  \<comment> \<open>the first frame after the press comes when the buffer window has elapsed\<close>
  "late_frames = [Frame (tick 1300) (1 / 120)]"

section \<open>Which fields each step leaves alone\<close>

lemma processJump_False: "\<not> fst (processJump t p) \<Longrightarrow> snd (processJump t p) = p"
  by (auto simp add: processJump_def Let_def split: if_splits)

lemma processJump_cooldown: "t - lastJumpTime p < 100 \<Longrightarrow> processJump t p = (False, p)"
  by (simp add: processJump_def Let_def)

lemma processJump_ground:
  assumes "\<not> jt - lastJumpTime p < 100" "jumpCount p = 0"
    "onGround p \<or> jt - lastGroundedTime p < coyoteTime"
  shows "processJump jt p =
     (True, applyJumpBoost ((setVelocityY jumpForce p)\<lparr>jumpCount := 1, lastJumpTime := jt\<rparr>))"
  using assms by (simp add: processJump_def Let_def)

lemma update_jump_unconsumed:
  "jumpRequested p \<Longrightarrow> now - jumpBufferTime p < jumpBufferWindow \<Longrightarrow> \<not> fst (processJump jt p)
     \<Longrightarrow> update_jump now jt p = p"
  using processJump_False[of jt p]
  by (auto simp add: update_jump_def Let_def split: prod.splits)

lemma update_jump_expired:
  "jumpRequested p \<Longrightarrow> \<not> now - jumpBufferTime p < jumpBufferWindow
     \<Longrightarrow> update_jump now jt p = p\<lparr>jumpRequested := False\<rparr>"
  by (simp add: update_jump_def)

lemma Movement_update_frame:
  "jumpCount (Movement_update now dt p) = jumpCount p"
  "maxJumps (Movement_update now dt p) = maxJumps p"
  "onGround (Movement_update now dt p) = onGround p"
  "lastJumpTime (Movement_update now dt p) = lastJumpTime p"
  "lastGroundedTime (Movement_update now dt p) = lastGroundedTime p"
  "jumpRequested (Movement_update now dt p) = jumpRequested p"
  "jumpBufferTime (Movement_update now dt p) = jumpBufferTime p"
  "moveInput (Movement_update now dt p) = moveInput p"
  "isSprinting (Movement_update now dt p) = isSprinting p"
  "viewRotation (Movement_update now dt p) = viewRotation p"
  by (simp_all add: Movement_update_def Let_def applyFriction_def setVelocityXZ_def
      applyAccelerationWithMomentum_def calculateMoveDirection_def detectDirectionChange_def)

lemma update_ground_frame:
  "physicsBody (update_ground now p) = physicsBody p"
  "maxJumps (update_ground now p) = maxJumps p"
  "lastJumpTime (update_ground now p) = lastJumpTime p"
  "jumpRequested (update_ground now p) = jumpRequested p"
  "jumpBufferTime (update_ground now p) = jumpBufferTime p"
  "moveInput (update_ground now p) = moveInput p"
  "isJumping (update_ground now p) = isJumping p"
  "isSprinting (update_ground now p) = isSprinting p"
  "viewRotation (update_ground now p) = viewRotation p"
  "movement (update_ground now p) = movement p"
  "onGround (update_ground now p) = body_onGround (physicsBody p)"
  by (simp_all add: update_ground_def Let_def)

lemma applyFriction_vec_y:
  "vec_y (body_velocity (physicsBody (applyFriction dt p))) = vec_y (body_velocity (physicsBody p))"
  by (simp add: applyFriction_def Let_def setVelocityXZ_def)

lemma applyAcceleration_vec_y:
  "vec_y (body_velocity (physicsBody (applyAccelerationWithMomentum dt p))) =
     vec_y (body_velocity (physicsBody p))"
  by (simp add: applyAccelerationWithMomentum_def Let_def setVelocityXZ_def)

lemma physicsBody_setVelocityXZ:
  "body_position (physicsBody (setVelocityXZ a b p)) = body_position (physicsBody p)"
  "body_onGround (physicsBody (setVelocityXZ a b p)) = body_onGround (physicsBody p)"
  "vec_y (body_velocity (physicsBody (setVelocityXZ a b p))) = vec_y (body_velocity (physicsBody p))"
  by (simp_all add: setVelocityXZ_def)

lemma Movement_update_body:
  "body_position (physicsBody (Movement_update now dt p)) = body_position (physicsBody p)"
  "body_onGround (physicsBody (Movement_update now dt p)) = body_onGround (physicsBody p)"
  "vec_y (body_velocity (physicsBody (Movement_update now dt p))) = vec_y (body_velocity (physicsBody p))"
  by (simp_all add: Movement_update_def Let_def applyFriction_def setVelocityXZ_def
      applyAccelerationWithMomentum_def calculateMoveDirection_def detectDirectionChange_def)

section \<open>Jump requests that cannot be consumed\<close>

text \<open>
  Claim C7. If a pending jump request cannot be consumed on a tick, in particular whenever
  less than 100 ms have passed since the last jump, then \<^verbatim>\<open>processJump\<close> returns false and
  changes nothing: the jump counter, the time of the last jump, the vertical velocity and
  the boost flag are as before. Inside the buffer window the request stays pending; once
  the window has elapsed, the only change made by jump processing is that
  \<^verbatim>\<open>jumpRequested\<close> is cleared. For the whole tick: the counter is the one left by the
  ground bookkeeping, the time of the last jump and the vertical velocity of the body are
  unchanged, and the request is pending afterwards exactly if the window has not elapsed.
\<close>

theorem C7_unconsumed_request:
  "(jt - lastJumpTime p < 100 \<longrightarrow> processJump jt p = (False, p))
   \<and> (\<not> fst (processJump jt p) \<longrightarrow> snd (processJump jt p) = p)
   \<and> (jumpRequested p \<and> now - jumpBufferTime p < jumpBufferWindow \<and> \<not> fst (processJump jt p)
        \<longrightarrow> update_jump now jt p = p)
   \<and> (jumpRequested p \<and> \<not> now - jumpBufferTime p < jumpBufferWindow
        \<longrightarrow> update_jump now jt p = p\<lparr>jumpRequested := False\<rparr>)
   \<and> (jumpRequested p \<and>
        (\<not> now_update clk - jumpBufferTime p < jumpBufferWindow
         \<or> \<not> fst (processJump (now_jump clk) (update_ground (now_update clk) p)))
        \<longrightarrow> (let p' = Player_update clk dt p
             in jumpCount p' = jumpCount (update_ground (now_update clk) p)
                \<and> lastJumpTime p' = lastJumpTime p
                \<and> vec_y (body_velocity (physicsBody p')) = vec_y (body_velocity (physicsBody p))
                \<and> jumpRequested p' = (now_update clk - jumpBufferTime p < jumpBufferWindow)))"
proof (intro conjI impI)
  assume "jt - lastJumpTime p < 100"
  then show "processJump jt p = (False, p)" by (rule processJump_cooldown)
next
  assume "\<not> fst (processJump jt p)"
  then show "snd (processJump jt p) = p" by (rule processJump_False)
next
  assume "jumpRequested p \<and> now - jumpBufferTime p < jumpBufferWindow \<and> \<not> fst (processJump jt p)"
  then show "update_jump now jt p = p" by (simp add: update_jump_unconsumed)
next
  assume "jumpRequested p \<and> \<not> now - jumpBufferTime p < jumpBufferWindow"
  then show "update_jump now jt p = p\<lparr>jumpRequested := False\<rparr>" by (simp add: update_jump_expired)
next
  let ?g = "update_ground (now_update clk) p"
  assume a: "jumpRequested p \<and>
        (\<not> now_update clk - jumpBufferTime p < jumpBufferWindow
         \<or> \<not> fst (processJump (now_jump clk) ?g))"
  have req: "jumpRequested ?g" and buf: "jumpBufferTime ?g = jumpBufferTime p"
    using a by (simp_all add: update_ground_frame)
  show "let p' = Player_update clk dt p
        in jumpCount p' = jumpCount ?g
           \<and> lastJumpTime p' = lastJumpTime p
           \<and> vec_y (body_velocity (physicsBody p')) = vec_y (body_velocity (physicsBody p))
           \<and> jumpRequested p' = (now_update clk - jumpBufferTime p < jumpBufferWindow)"
  proof (cases "now_update clk - jumpBufferTime p < jumpBufferWindow")
    case True
    with a have "\<not> fst (processJump (now_jump clk) ?g)" by simp
    with req buf True have "update_jump (now_update clk) (now_jump clk) ?g = ?g"
      by (simp add: update_jump_unconsumed)
    with True a show ?thesis
      by (simp add: Player_update_def Let_def Movement_update_frame Movement_update_body
          update_ground_frame)
  next
    case False
    with req buf have "update_jump (now_update clk) (now_jump clk) ?g = ?g\<lparr>jumpRequested := False\<rparr>"
      by (simp add: update_jump_expired)
    with False show ?thesis
      by (simp add: Player_update_def Let_def Movement_update_frame Movement_update_body
          update_ground_frame)
  qed
qed

text \<open>The theorem at a player that jumped 60 ms ago: the request waits, then expires.\<close>

theorem C7_unconsumed_request_witness:
  "processJump 1010 cooling_player = (False, cooling_player)
   \<and> update_jump 1010 1010 cooling_player = cooling_player
   \<and> update_jump 1300 1300 cooling_player = cooling_player\<lparr>jumpRequested := False\<rparr>
   \<and> jumpCount (Player_update (tick 1010) (1 / 120) cooling_player) = 1
   \<and> lastJumpTime (Player_update (tick 1010) (1 / 120) cooling_player) = 950
   \<and> jumpRequested (Player_update (tick 1010) (1 / 120) cooling_player)
   \<and> \<not> jumpRequested (Player_update (tick 1300) (1 / 120) cooling_player)"
proof -
  have c: "(1010::real) - lastJumpTime cooling_player < 100"
    and r: "jumpRequested cooling_player"
    and b: "(1010::real) - jumpBufferTime cooling_player < jumpBufferWindow"
    and e: "\<not> (1300::real) - jumpBufferTime cooling_player < jumpBufferWindow"
    and j: "jumpCount cooling_player = 1" and l: "lastJumpTime cooling_player = 950"
    and g: "\<not> body_onGround (physicsBody cooling_player)"
    by (simp_all add: cooling_player_def player0_def Player_new_def jumpBufferWindow_def)
  have pj: "processJump 1010 cooling_player = (False, cooling_player)"
    using C7_unconsumed_request[where jt = 1010 and p = cooling_player] c by blast
  have g1: "update_ground 1010 cooling_player = cooling_player\<lparr>position := body_position (physicsBody cooling_player),
                 velocity := body_velocity (physicsBody cooling_player), onGround := False\<rparr>"
    by (simp add: update_ground_def Let_def cooling_player_def player0_def Player_new_def)
  have pg: "\<not> fst (processJump 1010 (update_ground 1010 cooling_player))"
    by (simp add: g1 processJump_def Let_def l)
  have jg: "jumpCount (update_ground 1010 cooling_player) = 1"
    by (simp add: g1 j)
  note t1 = C7_unconsumed_request[where jt = 1010 and p = cooling_player and now = 1010
      and clk = "tick 1010" and dt = "1 / 120"]
  note t2 = C7_unconsumed_request[where jt = 1300 and p = cooling_player and now = 1300
      and clk = "tick 1300" and dt = "1 / 120"]
  show ?thesis
    using t1 t2 pj r b e pg jg l by (simp add: tick_def Let_def)
qed

section \<open>Locomotion leaves the vertical velocity alone\<close>

text \<open>
  Claim C9. \<^verbatim>\<open>Movement.update\<close>, through both blending regimes, the jump boost and the idle
  friction path, writes only the X and Z components of the velocity of the physics body:
  the Y component, the position and the ground flag of the body are unchanged.
\<close>

theorem C9_locomotion_keeps_vertical_velocity:
  "vec_y (body_velocity (physicsBody (Movement_update now dt p))) =
     vec_y (body_velocity (physicsBody p))
   \<and> body_position (physicsBody (Movement_update now dt p)) = body_position (physicsBody p)
   \<and> body_onGround (physicsBody (Movement_update now dt p)) = body_onGround (physicsBody p)
   \<and> vec_y (body_velocity (physicsBody (applyAccelerationWithMomentum dt p))) =
       vec_y (body_velocity (physicsBody p))
   \<and> vec_y (body_velocity (physicsBody (applyFriction dt p))) =
       vec_y (body_velocity (physicsBody p))"
  by (simp add: Movement_update_body applyAcceleration_vec_y applyFriction_vec_y)

section \<open>Lengths of vectors and the move direction\<close>

lemma vec_length_nonneg: "0 \<le> vec_length v"
  by (simp add: vec_length_def)

lemma vec_length_sq: "vec_length v * vec_length v = lengthSq v"
  by (simp add: vec_length_def lengthSq_def)

lemma lengthSq_nonneg: "0 \<le> lengthSq v"
  by (simp add: lengthSq_def)

lemma vec_length_sqrt: "vec_length v = sqrt (lengthSq v)"
  by (simp add: vec_length_def lengthSq_def)

lemma vec_length_pos_iff: "0 < vec_length v \<longleftrightarrow> 0 < lengthSq v"
  by (simp add: vec_length_sqrt)

lemma vec_length_z: "vec_length \<lparr>vec_x = 0, vec_y = 0, vec_z = c\<rparr> = \<bar>c\<bar>"
  by (simp add: vec_length_def)

lemma vec_length_x: "vec_length \<lparr>vec_x = c, vec_y = 0, vec_z = 0\<rparr> = \<bar>c\<bar>"
  by (simp add: vec_length_def)

lemma vec_length_multiplyScalar: "vec_length (multiplyScalar v s) = \<bar>s\<bar> * vec_length v"
proof -
  have "lengthSq (multiplyScalar v s) = s\<^sup>2 * lengthSq v"
    by (simp add: lengthSq_def multiplyScalar_def power2_eq_square algebra_simps)
  then show ?thesis
    by (simp add: vec_length_sqrt real_sqrt_mult)
qed

lemma vec_length_normalize: "0 < lengthSq v \<Longrightarrow> vec_length (normalize v) = 1"
  using vec_length_pos_iff[of v]
  by (simp add: normalize_def divideScalar_def vec_length_multiplyScalar)

lemma vec_length_horizontal: "vec_length (horizontal v) = sqrt ((vec_x v)\<^sup>2 + (vec_z v)\<^sup>2)"
  by (simp add: vec_length_def horizontal_def Vector3_new_def power2_eq_square)

lemma horizontal_le: "vec_length (horizontal v) \<le> vec_length v"
  by (simp add: vec_length_def horizontal_def Vector3_new_def)

lemma maxSpeed_pos: "0 < maxSpeed" by (simp add: maxSpeed_def)

lemma limitSpeed_le: "vec_length (limitSpeed v) \<le> maxSpeed"
  using maxSpeed_pos
  by (simp add: limitSpeed_def Let_def vec_length_multiplyScalar)

lemma limitSpeed_exceeds:
  "maxSpeed < vec_length v \<Longrightarrow> vec_length (limitSpeed v) = maxSpeed"
  using maxSpeed_pos
  by (simp add: limitSpeed_def Let_def vec_length_multiplyScalar)

lemma limitSpeed_within: "vec_length v \<le> maxSpeed \<Longrightarrow> limitSpeed v = v"
  by (simp add: limitSpeed_def Let_def)

lemma forward_yaw:
  "(applyQuaternion (Vector3_new 0 0 (- 1)) (setFromEuler (Euler_new 0 th 0)))\<lparr>vec_y := 0\<rparr>
     = Vector3_new (- sin th) 0 (- cos th)"
proof -
  have s: "sin th = 2 * sin (th / 2) * cos (th / 2)"
    using sin_double[of "th / 2"] by simp
  have c: "cos th = 1 - 2 * (sin (th / 2))\<^sup>2"
    using cos_double_sin[of "th / 2"] by simp
  show ?thesis
    by (simp add: applyQuaternion_def setFromEuler_def Euler_new_def Vector3_new_def Let_def s c
        power2_eq_square algebra_simps)
qed

lemma right_yaw:
  "(applyQuaternion (Vector3_new 1 0 0) (setFromEuler (Euler_new 0 th 0)))\<lparr>vec_y := 0\<rparr>
     = Vector3_new (cos th) 0 (- sin th)"
proof -
  have s: "sin th = 2 * sin (th / 2) * cos (th / 2)"
    using sin_double[of "th / 2"] by simp
  have c: "cos th = 1 - 2 * (sin (th / 2))\<^sup>2"
    using cos_double_sin[of "th / 2"] by simp
  show ?thesis
    by (simp add: applyQuaternion_def setFromEuler_def Euler_new_def Vector3_new_def Let_def s c
        power2_eq_square algebra_simps)
qed

lemma unit_yaw1: "lengthSq (Vector3_new (- sin th) 0 (- cos th)) = 1"
  using sin_cos_squared_add[of th]
  by (simp add: lengthSq_def Vector3_new_def power2_eq_square)

lemma unit_yaw2: "lengthSq (Vector3_new (cos th) 0 (- sin th)) = 1"
  using sin_cos_squared_add2[of th]
  by (simp add: lengthSq_def Vector3_new_def power2_eq_square)

lemma normalize_unit: "lengthSq v = 1 \<Longrightarrow> normalize v = v"
  by (simp add: normalize_def divideScalar_def multiplyScalar_def vec_length_sqrt)

lemma moveDirection_calc:
  "moveDirection (movement (calculateMoveDirection mi p)) =
     (let d = yawDirection (eul_y (viewRotation p)) mi in if lengthSq d > 0 then normalize d else d)"
  unfolding calculateMoveDirection_def Let_def forward_yaw right_yaw
  by (simp add: unit_yaw1 unit_yaw2 normalize_unit)
    (simp add: yawDirection_def addScaledVector_def Vector3_new_def mult.commute)

lemma moveDirection_y: "vec_y (moveDirection (movement (calculateMoveDirection mi p))) = 0"
  by (simp add: moveDirection_calc Let_def yawDirection_def Vector3_new_def normalize_def
      divideScalar_def multiplyScalar_def)

lemma moveDirection_le1: "vec_length (moveDirection (movement (calculateMoveDirection mi p))) \<le> 1"
  by (simp add: moveDirection_calc Let_def vec_length_normalize)
    (simp add: vec_length_sqrt not_less order_antisym[OF _ lengthSq_nonneg])

lemma lengthSq_yawDirection: "lengthSq (yawDirection th mi) = (vec_x mi)\<^sup>2 + (vec_z mi)\<^sup>2"
proof -
  have eq: "sin th * sin th = 1 - cos th * cos th"
    using sin_cos_squared_add[of th] by (simp add: power2_eq_square)
  show ?thesis
    by (simp add: lengthSq_def yawDirection_def Vector3_new_def power2_eq_square algebra_simps eq)
qed

section \<open>A granted ground jump\<close>

text \<open>
  Claim C3, as the code has it. On a tick where a pending, unexpired jump request is
  processed with the cooldown elapsed, the jump counter at 0 and the character on the ground
  or inside the coyote window, \<^verbatim>\<open>processJump\<close> succeeds: the vertical velocity becomes
  exactly \<^verbatim>\<open>jumpForce\<close>, the counter becomes 1, the time of the last jump becomes the clock
  value read by \<^verbatim>\<open>processJump\<close>, and the request is cleared; all four still hold when
  \<^verbatim>\<open>Movement.update\<close> has run, at the end of the tick. The boost flag
  \<^verbatim>\<open>isJumping\<close> is raised only if the stored move direction is not zero and the
  character is on the ground; a jump granted by coyote time leaves the flag as it was.
\<close>

theorem C3_ground_jump:
  assumes "jumpRequested p" "now - jumpBufferTime p < jumpBufferWindow"
    "\<not> jt - lastJumpTime p < 100" "jumpCount p = 0"
    "onGround p \<or> jt - lastGroundedTime p < coyoteTime"
  shows "fst (processJump jt p)
    \<and> vec_y (body_velocity (physicsBody (update_jump now jt p))) = jumpForce
    \<and> jumpCount (update_jump now jt p) = 1
    \<and> lastJumpTime (update_jump now jt p) = jt
    \<and> \<not> jumpRequested (update_jump now jt p)
    \<and> isJumping (update_jump now jt p) =
         (isJumping p \<or> (0 < lengthSq (moveDirection (movement p)) \<and> onGround p))
    \<and> vec_y (body_velocity (physicsBody (Movement_update mt dt (update_jump now jt p)))) =
         jumpForce
    \<and> jumpCount (Movement_update mt dt (update_jump now jt p)) = 1
    \<and> lastJumpTime (Movement_update mt dt (update_jump now jt p)) = jt
    \<and> \<not> jumpRequested (Movement_update mt dt (update_jump now jt p))"
  using assms
  by (auto simp add: processJump_ground update_jump_def applyJumpBoost_def setVelocityY_def
      Movement_update_frame Movement_update_body)


text \<open>The theorem on the ground (flag raised) and in the coyote window (flag not raised).\<close>

theorem C3_ground_jump_witness:
  "vec_y (body_velocity (physicsBody (update_jump 1010 1010 grounded_player))) = jumpForce
   \<and> jumpCount (update_jump 1010 1010 grounded_player) = 1
   \<and> lastJumpTime (update_jump 1010 1010 grounded_player) = 1010
   \<and> \<not> jumpRequested (update_jump 1010 1010 grounded_player)
   \<and> isJumping (update_jump 1010 1010 grounded_player)
   \<and> jumpCount (Movement_update 1010 (1 / 120) (update_jump 1010 1010 grounded_player)) = 1
   \<and> vec_y (body_velocity (physicsBody (update_jump 1010 1010 coyote_player))) = jumpForce
   \<and> jumpCount (update_jump 1010 1010 coyote_player) = 1
   \<and> \<not> isJumping (update_jump 1010 1010 coyote_player)"
proof -
  have g: "jumpRequested grounded_player"
      "(1010::real) - jumpBufferTime grounded_player < jumpBufferWindow"
      "\<not> (1010::real) - lastJumpTime grounded_player < 100" "jumpCount grounded_player = 0"
      "onGround grounded_player \<or> (1010::real) - lastGroundedTime grounded_player < coyoteTime"
    by (simp_all add: grounded_player_def coyote_player_def player0_def Player_new_def
        jumpBufferWindow_def)
  have c: "jumpRequested coyote_player"
      "(1010::real) - jumpBufferTime coyote_player < jumpBufferWindow"
      "\<not> (1010::real) - lastJumpTime coyote_player < 100" "jumpCount coyote_player = 0"
      "onGround coyote_player \<or> (1010::real) - lastGroundedTime coyote_player < coyoteTime"
    by (simp_all add: coyote_player_def player0_def Player_new_def jumpBufferWindow_def
        coyoteTime_def)
  have m: "\<not> isJumping grounded_player" "onGround grounded_player"
      "0 < lengthSq (moveDirection (movement grounded_player))"
      "\<not> isJumping coyote_player" "\<not> onGround coyote_player"
    by (simp_all add: grounded_player_def coyote_player_def player0_def Player_new_def
        Movement_new_def Vector3_new_def lengthSq_def)
  show ?thesis
    using C3_ground_jump[OF g, of 1010 "1 / 120"] C3_ground_jump[OF c, of 1010 "1 / 120"] m
    by simp
qed


text \<open>
  Claim C3 as stated fails: a jump granted by coyote time, 20 ms after leaving the ground
  and with a move direction stored, sets the counter to 1 and does not raise the boost flag.
\<close>

theorem C3_counterexample:
  "jumpRequested coyote_player
   \<and> (1010::real) - jumpBufferTime coyote_player < jumpBufferWindow
   \<and> \<not> (1010::real) - lastJumpTime coyote_player < 100
   \<and> jumpCount coyote_player = 0
   \<and> (1010::real) - lastGroundedTime coyote_player < coyoteTime
   \<and> 0 < lengthSq (moveDirection (movement coyote_player))
   \<and> fst (processJump 1010 coyote_player)
   \<and> jumpCount (update_jump 1010 1010 coyote_player) = 1
   \<and> \<not> isJumping (update_jump 1010 1010 coyote_player)"
  by (simp add: coyote_player_def player0_def Player_new_def jumpBufferWindow_def coyoteTime_def
      Movement_new_def Vector3_new_def lengthSq_def update_jump_def processJump_def Let_def
      applyJumpBoost_def setVelocityY_def)


section \<open>The jump counter\<close>

lemma update_jump_frame:
  "maxJumps (update_jump now jt p) = maxJumps p"
  "onGround (update_jump now jt p) = onGround p"
  "moveInput (update_jump now jt p) = moveInput p"
  "movement (update_jump now jt p) = movement p"
  "lastGroundedTime (update_jump now jt p) = lastGroundedTime p"
  "jumpBufferTime (update_jump now jt p) = jumpBufferTime p"
  "isSprinting (update_jump now jt p) = isSprinting p"
  "viewRotation (update_jump now jt p) = viewRotation p"
  "body_position (physicsBody (update_jump now jt p)) = body_position (physicsBody p)"
  "body_onGround (physicsBody (update_jump now jt p)) = body_onGround (physicsBody p)"
  "vec_x (body_velocity (physicsBody (update_jump now jt p))) = vec_x (body_velocity (physicsBody p))"
  "vec_z (body_velocity (physicsBody (update_jump now jt p))) = vec_z (body_velocity (physicsBody p))"
  by (simp_all add: update_jump_def processJump_def Let_def applyJumpBoost_def setVelocityY_def)

lemma update_jump_jumpCount:
  assumes "0 \<le> jumpCount p" "jumpCount p \<le> maxJumps p" "1 \<le> maxJumps p"
  shows "jumpCount p \<le> jumpCount (update_jump now jt p)"
    and "jumpCount (update_jump now jt p) \<le> maxJumps p"
  using assms
  by (auto simp add: update_jump_def processJump_def Let_def applyJumpBoost_def setVelocityY_def)

lemma update_ground_jumpCount:
  "jumpCount (update_ground now p) =
     (if body_onGround (physicsBody p) \<and> \<not> onGround p then 0 else jumpCount p)"
  by (simp add: update_ground_def Let_def)

lemma Player_update_jumpCount:
  assumes "0 \<le> jumpCount p" "jumpCount p \<le> maxJumps p" "1 \<le> maxJumps p"
  shows "0 \<le> jumpCount (Player_update clk dt p)"
    and "jumpCount (Player_update clk dt p) \<le> maxJumps (Player_update clk dt p)"
    and "maxJumps (Player_update clk dt p) = maxJumps p"
proof -
  let ?g = "update_ground (now_update clk) p"
  have g: "0 \<le> jumpCount ?g" "jumpCount ?g \<le> maxJumps ?g" "1 \<le> maxJumps ?g"
    using assms by (simp_all add: update_ground_jumpCount update_ground_frame)
  from update_jump_jumpCount[OF g, of "now_update clk" "now_jump clk"] g(1)
  show "0 \<le> jumpCount (Player_update clk dt p)"
    and "jumpCount (Player_update clk dt p) \<le> maxJumps (Player_update clk dt p)"
    and "maxJumps (Player_update clk dt p) = maxJumps p"
    by (simp_all add: Player_update_def Movement_update_frame update_jump_frame update_ground_frame)
qed

lemma step_jumpCount:
  assumes "0 \<le> jumpCount p" "jumpCount p \<le> maxJumps p" "1 \<le> maxJumps p"
  shows "0 \<le> jumpCount (step p e) \<and> jumpCount (step p e) \<le> maxJumps (step p e)
         \<and> maxJumps (step p e) = maxJumps p"
proof (cases e)
  case (KeyDown k t)
  with assms show ?thesis by (cases k) (simp_all add: setMoveX_def setMoveZ_def)
next
  case (KeyUp k)
  with assms show ?thesis by (cases k) (simp_all add: setMoveX_def setMoveZ_def)
next
  case (MouseMove dx dy)
  with assms show ?thesis by (simp add: rotate_def Let_def)
next
  case (Physics b)
  with assms show ?thesis by simp
next
  case (Spawn spawnPos rotation)
  with assms show ?thesis by (simp add: setPlayerSpawn_def Let_def split: option.split)
next
  case (Frame clk dt)
  with Player_update_jumpCount[OF assms] show ?thesis by simp
qed

lemma run_jumpCount:
  assumes "0 \<le> jumpCount p" "jumpCount p \<le> maxJumps p" "1 \<le> maxJumps p"
  shows "0 \<le> jumpCount (run p es) \<and> jumpCount (run p es) \<le> maxJumps (run p es)
         \<and> maxJumps (run p es) = maxJumps p"
  using assms
proof (induction es arbitrary: p)
  case Nil
  then show ?case by simp
next
  case (Cons e es)
  from step_jumpCount[OF Cons.prems, of e]
  have s: "0 \<le> jumpCount (step p e)" "jumpCount (step p e) \<le> maxJumps (step p e)"
    "1 \<le> maxJumps (step p e)" "maxJumps (step p e) = maxJumps p"
    using Cons.prems by simp_all
  from Cons.IH[OF s(1-3)] s(4) show ?case by simp
qed

lemma landing_tick:
  assumes "body_onGround (physicsBody s)" "\<not> onGround s"
  shows "jumpCount (Player_update clk dt s) =
     (if jumpRequested s \<and> now_update clk - jumpBufferTime s < jumpBufferWindow
         \<and> \<not> now_jump clk - lastJumpTime s < 100 then 1 else 0)"
proof -
  let ?g = "update_ground (now_update clk) s"
  have g: "jumpCount ?g = 0" "onGround ?g" "lastJumpTime ?g = lastJumpTime s"
    "jumpRequested ?g = jumpRequested s" "jumpBufferTime ?g = jumpBufferTime s"
    using assms by (simp_all add: update_ground_jumpCount update_ground_frame)
  have "jumpCount (update_jump (now_update clk) (now_jump clk) ?g) =
     (if jumpRequested s \<and> now_update clk - jumpBufferTime s < jumpBufferWindow
         \<and> \<not> now_jump clk - lastJumpTime s < 100 then 1 else 0)"
    using g by (simp add: update_jump_def processJump_def Let_def applyJumpBoost_def)
  then show ?thesis
    by (simp add: Player_update_def Movement_update_frame)
qed


text \<open>
  Claim C4. In every state reached from the constructed player by key, mouse, physics and
  spawn events and frames, the jump counter is between 0 and \<^verbatim>\<open>maxJumps\<close> (for a configuration
  whose \<^verbatim>\<open>maxJumps\<close> entry is missing, zero or at least 1). The ground bookkeeping of a tick
  resets the counter to 0 exactly when the ground flag goes from false to true, whatever
  the counter was. At the end of such a tick the counter is 0, or 1 when a latched jump
  press is consumed on that same tick; on every other tick the counter does not decrease.
\<close>

theorem C4_jumpCount_invariant:
  assumes "1 \<le> config_or cfg 2" and "s = run (Player_new cfg ms b) es"
  shows "0 \<le> jumpCount s \<and> jumpCount s \<le> maxJumps s
     \<and> jumpCount (update_ground now s) =
         (if body_onGround (physicsBody s) \<and> \<not> onGround s then 0 else jumpCount s)
     \<and> (body_onGround (physicsBody s) \<and> \<not> onGround s \<longrightarrow>
          jumpCount (Player_update clk dt s) =
            (if jumpRequested s \<and> now_update clk - jumpBufferTime s < jumpBufferWindow
                \<and> \<not> now_jump clk - lastJumpTime s < 100 then 1 else 0))
     \<and> (\<not> (body_onGround (physicsBody s) \<and> \<not> onGround s) \<longrightarrow>
          jumpCount s \<le> jumpCount (Player_update clk dt s))"
proof -
  have i: "0 \<le> jumpCount (Player_new cfg ms b)" "jumpCount (Player_new cfg ms b) \<le> maxJumps (Player_new cfg ms b)"
    "1 \<le> maxJumps (Player_new cfg ms b)"
    using assms(1) by (simp_all add: Player_new_def)
  from run_jumpCount[OF i, of es] assms(2) i(3)
  have inv: "0 \<le> jumpCount s" "jumpCount s \<le> maxJumps s" "1 \<le> maxJumps s"
    by simp_all
  have stay: "jumpCount s \<le> jumpCount (Player_update clk dt s)"
    if n: "\<not> (body_onGround (physicsBody s) \<and> \<not> onGround s)"
  proof -
    let ?g = "update_ground (now_update clk) s"
    have g: "jumpCount ?g = jumpCount s" "maxJumps ?g = maxJumps s"
      using n by (auto simp add: update_ground_jumpCount update_ground_frame)
    with inv have "0 \<le> jumpCount ?g" "jumpCount ?g \<le> maxJumps ?g" "1 \<le> maxJumps ?g"
      by simp_all
    from update_jump_jumpCount(1)[OF this, of "now_update clk" "now_jump clk"] g
    show ?thesis by (simp add: Player_update_def Movement_update_frame)
  qed
  show ?thesis
    using inv stay landing_tick[of s clk dt] by (simp add: update_ground_jumpCount)
qed


lemma Player_update_frame:
  "moveInput (Player_update clk dt p) = moveInput p"
  "maxJumps (Player_update clk dt p) = maxJumps p"
  by (simp_all add: Player_update_def Movement_update_frame update_jump_frame update_ground_frame)

lemmas run_eval_defs =
  player0_def Player_new_def config_or_def tick_def
  Player_update_def update_ground_def update_jump_def processJump_def Let_def Movement_update_def
  applyFriction_def setVelocityXZ_def setVelocityY_def applyJumpBoost_def Movement_new_def
  Vector3_new_def Euler_new_def lengthSq_def vec_length_def horizontal_def jumpBufferWindow_def
  coyoteTime_def landed_body_def

lemma double_jump_state:
  "jumpCount (run player0 double_jump_events) = 2"
  "maxJumps (run player0 double_jump_events) = 2"
  "body_onGround (physicsBody (run player0 double_jump_events))"
  "\<not> onGround (run player0 double_jump_events)"
  "\<not> jumpRequested (run player0 double_jump_events)"
  by (simp_all add: double_jump_events_def run_eval_defs)


text \<open>The theorem after two air jumps followed by a landing, and at the constructed player.\<close>

theorem C4_jumpCount_invariant_witness:
  "jumpCount (run player0 double_jump_events) = 2
   \<and> jumpCount (run player0 double_jump_events) \<le> maxJumps (run player0 double_jump_events)
   \<and> jumpCount (update_ground 1300 (run player0 double_jump_events)) = 0
   \<and> jumpCount (Player_update (tick 1300) (1 / 120) (run player0 double_jump_events)) = 0
   \<and> jumpCount player0 \<le> jumpCount (Player_update (tick 1300) (1 / 120) player0)"
proof -
  have c: "1 \<le> config_or (None :: int option) 2"
    by (simp add: config_or_def)
  have s: "run player0 double_jump_events =
      run (Player_new None None \<lparr>body_position = Vector3_new 0 2 0,
        body_velocity = Vector3_new 0 0 0, body_onGround = False\<rparr>) double_jump_events"
    and e: "player0 =
      run (Player_new None None \<lparr>body_position = Vector3_new 0 2 0,
        body_velocity = Vector3_new 0 0 0, body_onGround = False\<rparr>) []"
    by (simp_all add: player0_def)
  have n: "\<not> (body_onGround (physicsBody player0) \<and> \<not> onGround player0)"
    by (simp add: player0_def Player_new_def)
  show ?thesis
    using C4_jumpCount_invariant[OF c s, of 1300 "tick 1300" "1 / 120"]
      C4_jumpCount_invariant[OF c e, of 1300 "tick 1300" "1 / 120"] n
    by (simp add: double_jump_state)
qed


section \<open>The velocity written by the accelerating path\<close>

lemma aim_frame:
  "physicsBody (aim now p) = physicsBody p"
  "onGround (aim now p) = onGround p"
  "isJumping (aim now p) = isJumping p"
  "jumpCount (aim now p) = jumpCount p"
  by (simp_all add: aim_def Let_def detectDirectionChange_def calculateMoveDirection_def)

lemma aim_moveDirection:
  "moveDirection (movement (aim now p)) =
     moveDirection (movement (calculateMoveDirection
        (if lengthSq (moveInput p) > 1 then normalize (moveInput p) else moveInput p) p))"
  by (simp add: aim_def Let_def detectDirectionChange_def calculateMoveDirection_def)

lemma aim_targetVelocity:
  "targetVelocity (movement (aim now p)) =
     multiplyScalar (moveDirection (movement (aim now p))) (if isSprinting p then runSpeed else walkSpeed)"
  by (simp add: aim_def Let_def detectDirectionChange_def calculateMoveDirection_def)

lemma Movement_update_moving:
  "lengthSq (moveInput p) \<noteq> 0 \<Longrightarrow>
   physicsBody (Movement_update now dt p) =
     physicsBody (applyAccelerationWithMomentum dt (aim now p))"
  by (simp add: Movement_update_def aim_def Let_def)

lemma Movement_update_idle:
  "lengthSq (moveInput p) = 0 \<Longrightarrow>
   physicsBody (Movement_update now dt p) = physicsBody (applyFriction dt p)"
  by (simp add: Movement_update_def Let_def)

lemma applyAcceleration_velocity:
  "vec_x (body_velocity (physicsBody (applyAccelerationWithMomentum dt p))) =
     vec_x (limitSpeed (blendVelocity dt p)) +
       (if isJumping p \<and> jumpCount p = 1
        then vec_x (moveDirection (movement p)) * (jumpBoostForward * walkSpeed) else 0)"
  "vec_z (body_velocity (physicsBody (applyAccelerationWithMomentum dt p))) =
     vec_z (limitSpeed (blendVelocity dt p)) +
       (if isJumping p \<and> jumpCount p = 1
        then vec_z (moveDirection (movement p)) * (jumpBoostForward * walkSpeed) else 0)"
  by (simp_all add: applyAccelerationWithMomentum_def Let_def setVelocityXZ_def multiplyScalar_def)

lemma aim_moveDirection_y: "vec_y (moveDirection (movement (aim now p))) = 0"
  by (simp only: aim_moveDirection moveDirection_y)

lemma aim_moveDirection_le1: "vec_length (moveDirection (movement (aim now p))) \<le> 1"
  by (simp only: aim_moveDirection moveDirection_le1)

lemma horizontalSpeed_eq:
  "horizontalSpeed p = sqrt ((vec_x (body_velocity (physicsBody p)))\<^sup>2 + (vec_z (body_velocity (physicsBody p)))\<^sup>2)"
  by (simp add: horizontalSpeed_def vec_length_horizontal)

lemma sqrt_xz_le: "sqrt ((vec_x v)\<^sup>2 + (vec_z v)\<^sup>2) \<le> vec_length v"
  using horizontal_le[of v] by (simp add: vec_length_horizontal)

lemma capped_speed:
  assumes "\<not> (isJumping p \<and> jumpCount p = 1)"
  shows "horizontalSpeed (applyAccelerationWithMomentum dt p) \<le> maxSpeed"
proof -
  have "horizontalSpeed (applyAccelerationWithMomentum dt p) =
      sqrt ((vec_x (limitSpeed (blendVelocity dt p)))\<^sup>2 + (vec_z (limitSpeed (blendVelocity dt p)))\<^sup>2)"
    using assms by (auto simp add: horizontalSpeed_eq applyAcceleration_velocity)
  also have "\<dots> \<le> vec_length (limitSpeed (blendVelocity dt p))" by (rule sqrt_xz_le)
  also have "\<dots> \<le> maxSpeed" by (rule limitSpeed_le)
  finally show ?thesis .
qed

lemma boosted_speed:
  assumes "vec_length (moveDirection (movement p)) \<le> 1"
  shows "horizontalSpeed (applyAccelerationWithMomentum dt p) \<le> maxSpeed + jumpBoostForward * walkSpeed"
proof (cases "isJumping p \<and> jumpCount p = 1")
  case False
  from capped_speed[OF this, of dt] show ?thesis
    by (simp add: jumpBoostForward_def walkSpeed_def)
next
  case True
  let ?l = "limitSpeed (blendVelocity dt p)"
  let ?b = "multiplyScalar (moveDirection (movement p)) (jumpBoostForward * walkSpeed)"
  have "horizontalSpeed (applyAccelerationWithMomentum dt p) =
      sqrt ((vec_x ?l + vec_x ?b)\<^sup>2 + (vec_z ?l + vec_z ?b)\<^sup>2)"
    using True by (simp add: horizontalSpeed_eq applyAcceleration_velocity multiplyScalar_def)
  also have "\<dots> \<le> sqrt ((vec_x ?l)\<^sup>2 + (vec_z ?l)\<^sup>2) + sqrt ((vec_x ?b)\<^sup>2 + (vec_z ?b)\<^sup>2)"
    by (rule real_sqrt_sum_squares_triangle_ineq)
  also have "\<dots> \<le> vec_length ?l + vec_length ?b"
    by (intro add_mono sqrt_xz_le)
  also have "\<dots> \<le> maxSpeed + jumpBoostForward * walkSpeed"
  proof (intro add_mono limitSpeed_le)
    have "vec_length ?b = (jumpBoostForward * walkSpeed) * vec_length (moveDirection (movement p))"
      by (simp add: vec_length_multiplyScalar jumpBoostForward_def walkSpeed_def)
    also have "\<dots> \<le> (jumpBoostForward * walkSpeed) * 1"
      by (rule mult_left_mono[OF assms]) (simp add: jumpBoostForward_def walkSpeed_def)
    finally show "vec_length ?b \<le> jumpBoostForward * walkSpeed" by simp
  qed
  finally show ?thesis .
qed

section \<open>Idle friction\<close>

lemma applyFriction_velocity:
  "vec_x (body_velocity (physicsBody (applyFriction dt p))) =
     (if horizontalSpeed p < 0.01 then 0
      else vec_x (body_velocity (physicsBody p)) *
        max 0 (1 - (if onGround p then groundFriction else airFriction) *
                   (if 5 < horizontalSpeed p then 0.5 else 1) * dt))"
  "vec_z (body_velocity (physicsBody (applyFriction dt p))) =
     (if horizontalSpeed p < 0.01 then 0
      else vec_z (body_velocity (physicsBody p)) *
        max 0 (1 - (if onGround p then groundFriction else airFriction) *
                   (if 5 < horizontalSpeed p then 0.5 else 1) * dt))"
  by (simp_all add: applyFriction_def Let_def setVelocityXZ_def horizontalSpeed_def)

lemma sqrt_scaled: "0 \<le> k \<Longrightarrow> sqrt ((a * k)\<^sup>2 + (b * k)\<^sup>2) = k * sqrt (a\<^sup>2 + b\<^sup>2)"
proof -
  assume k: "0 \<le> k"
  have "(a * k)\<^sup>2 + (b * k)\<^sup>2 = k\<^sup>2 * (a\<^sup>2 + b\<^sup>2)"
    by (simp add: power2_eq_square algebra_simps)
  with k show ?thesis by (simp add: real_sqrt_mult)
qed

lemma horizontalSpeed_nonneg: "0 \<le> horizontalSpeed p"
  by (simp add: horizontalSpeed_def vec_length_nonneg)

lemma friction_decay:
  assumes "0 \<le> dt"
  shows "horizontalSpeed (applyFriction dt p) \<le> horizontalSpeed p"
proof (cases "horizontalSpeed p < 0.01")
  case True
  then have "horizontalSpeed (applyFriction dt p) = 0"
    by (simp add: horizontalSpeed_eq[of "applyFriction dt p"] applyFriction_velocity)
  then show ?thesis by (simp add: horizontalSpeed_nonneg)
next
  case False
  define k where "k = max 0 (1 - (if onGround p then groundFriction else airFriction) *
                   (if 5 < horizontalSpeed p then 0.5 else 1) * dt)"
  have k0: "0 \<le> k" by (simp add: k_def)
  have "0 \<le> (if onGround p then groundFriction else airFriction) *
                   (if 5 < horizontalSpeed p then 0.5 else 1) * dt"
    using assms by (simp add: groundFriction_def airFriction_def)
  then have k1: "k \<le> 1" by (simp add: k_def)
  have vx: "vec_x (body_velocity (physicsBody (applyFriction dt p))) =
      vec_x (body_velocity (physicsBody p)) * k"
    and vz: "vec_z (body_velocity (physicsBody (applyFriction dt p))) =
      vec_z (body_velocity (physicsBody p)) * k"
    using False unfolding k_def by (simp_all only: applyFriction_velocity if_False)
  have "horizontalSpeed (applyFriction dt p) = k * horizontalSpeed p"
    unfolding horizontalSpeed_eq vx vz by (rule sqrt_scaled[OF k0])
  also have "\<dots> \<le> 1 * horizontalSpeed p"
    by (rule mult_right_mono[OF k1 horizontalSpeed_nonneg])
  finally show ?thesis by simp
qed

lemma horizontalSpeed_cong:
  "vec_x (body_velocity (physicsBody p)) = vec_x (body_velocity (physicsBody q)) \<Longrightarrow>
   vec_z (body_velocity (physicsBody p)) = vec_z (body_velocity (physicsBody q)) \<Longrightarrow>
   horizontalSpeed p = horizontalSpeed q"
  by (simp add: horizontalSpeed_eq)

lemma horizontalSpeed_body:
  "physicsBody p = physicsBody q \<Longrightarrow> horizontalSpeed p = horizontalSpeed q"
  by (simp add: horizontalSpeed_def)

lemma pre_movement_speed:
  "horizontalSpeed (update_jump t jt (update_ground t p)) = horizontalSpeed p"
  by (rule horizontalSpeed_cong) (simp_all add: update_jump_frame update_ground_frame)


text \<open>
  Claim C8. On a tick with zero move input and a non-negative frame time, the horizontal
  speed after \<^verbatim>\<open>Movement.update\<close> (and after the whole of \<^verbatim>\<open>Player.update\<close>) is at most
  the speed before it. If the speed is below 0.01, both horizontal components become exactly
  zero; otherwise the friction coefficient is the ground or air one by \<^verbatim>\<open>onGround\<close>,
  halved when the speed exceeds 5.0, and both components are multiplied by
  \<open>max 0 (1 - friction * dt)\<close>.
\<close>

theorem C8_idle_friction:
  assumes "lengthSq (moveInput p) = 0" "0 \<le> dt"
  shows "horizontalSpeed (Movement_update now dt p) \<le> horizontalSpeed p
     \<and> horizontalSpeed (Player_update clk dt p) \<le> horizontalSpeed p
     \<and> (horizontalSpeed p < 0.01 \<longrightarrow>
          vec_x (body_velocity (physicsBody (Movement_update now dt p))) = 0
          \<and> vec_z (body_velocity (physicsBody (Movement_update now dt p))) = 0)
     \<and> (\<not> horizontalSpeed p < 0.01 \<longrightarrow>
          (let friction = (if onGround p then groundFriction else airFriction) *
                            (if 5.0 < horizontalSpeed p then 0.5 else 1);
               damping = max 0 (1 - friction * dt)
           in vec_x (body_velocity (physicsBody (Movement_update now dt p))) =
                vec_x (body_velocity (physicsBody p)) * damping
              \<and> vec_z (body_velocity (physicsBody (Movement_update now dt p))) =
                vec_z (body_velocity (physicsBody p)) * damping))"
proof -
  have m: "physicsBody (Movement_update now' dt q) = physicsBody (applyFriction dt q)"
    if "lengthSq (moveInput q) = 0" for q now'
    using that by (rule Movement_update_idle)
  have a: "horizontalSpeed (Movement_update now dt p) \<le> horizontalSpeed p"
    using friction_decay[OF assms(2), of p] horizontalSpeed_body[OF m[OF assms(1)]] by simp
  let ?q = "update_jump (now_update clk) (now_jump clk) (update_ground (now_update clk) p)"
  have q0: "lengthSq (moveInput ?q) = 0"
    using assms(1) by (simp add: update_jump_frame update_ground_frame)
  have "horizontalSpeed (Player_update clk dt p) = horizontalSpeed (applyFriction dt ?q)"
    unfolding Player_update_def by (rule horizontalSpeed_body[OF m[OF q0]])
  also have "\<dots> \<le> horizontalSpeed ?q" by (rule friction_decay[OF assms(2)])
  also have "\<dots> = horizontalSpeed p" by (rule pre_movement_speed)
  finally have b: "horizontalSpeed (Player_update clk dt p) \<le> horizontalSpeed p" .
  show ?thesis
    using a b by (simp add: m[OF assms(1)] applyFriction_velocity Let_def)
qed

text \<open>The theorem at a body sliding at speed 20 and at a body at rest.\<close>

theorem C8_idle_friction_witness:
  "horizontalSpeed (Movement_update 1010 (1 / 120) sliding_player) \<le> 20
   \<and> horizontalSpeed (Player_update (tick 1010) (1 / 120) sliding_player) \<le> 20
   \<and> vec_x (body_velocity (physicsBody (Movement_update 1010 (1 / 120) sliding_player))) =
       20 * (1 - 0.25 * (1 / 120))
   \<and> vec_x (body_velocity (physicsBody (Movement_update 1010 (1 / 120) player0))) = 0
   \<and> vec_z (body_velocity (physicsBody (Movement_update 1010 (1 / 120) player0))) = 0"
proof -
  have s: "lengthSq (moveInput sliding_player) = 0" "horizontalSpeed sliding_player = 20"
    "vec_x (body_velocity (physicsBody sliding_player)) = 20" "onGround sliding_player"
    by (simp_all add: sliding_player_def player0_def Player_new_def lengthSq_def Vector3_new_def
        horizontalSpeed_def landed_body_def horizontal_def vec_length_x)
  have p: "lengthSq (moveInput player0) = 0" "horizontalSpeed player0 = 0"
    by (simp_all add: player0_def Player_new_def lengthSq_def Vector3_new_def
        horizontalSpeed_def horizontal_def vec_length_x)
  have d: "(0::real) \<le> 1 / 120" by simp
  show ?thesis
    using C8_idle_friction[OF s(1) d, of 1010 "tick 1010"]
      C8_idle_friction[OF p(1) d, of 1010 "tick 1010"]
    by (simp add: s p groundFriction_def Let_def)
qed


section \<open>The speed cap and the jump boost\<close>

lemma moving_speed_bound:
  assumes "lengthSq (moveInput p) \<noteq> 0"
  shows "horizontalSpeed (Movement_update now dt p) \<le> maxSpeed + jumpBoostForward * walkSpeed"
  using boosted_speed[OF aim_moveDirection_le1, of dt now p]
    horizontalSpeed_body[OF Movement_update_moving[OF assms, of now dt]] by simp

lemma moving_speed_capped:
  assumes "lengthSq (moveInput p) \<noteq> 0" "\<not> (isJumping p \<and> jumpCount p = 1)"
  shows "horizontalSpeed (Movement_update now dt p) \<le> maxSpeed"
proof -
  have "\<not> (isJumping (aim now p) \<and> jumpCount (aim now p) = 1)"
    using assms(2) by (simp add: aim_frame)
  from capped_speed[OF this, of dt]
    horizontalSpeed_body[OF Movement_update_moving[OF assms(1), of now dt]]
  show ?thesis by simp
qed

lemma sliding_speed:
  "horizontalSpeed (Movement_update 1010 (1 / 120) sliding_player) = 479 / 24"
proof -
  have i: "lengthSq (moveInput sliding_player) = 0"
    by (simp add: sliding_player_def player0_def Player_new_def Vector3_new_def lengthSq_def)
  have h: "horizontalSpeed sliding_player = 20"
    by (simp add: horizontalSpeed_def sliding_player_def landed_body_def horizontal_def
        Vector3_new_def vec_length_x)
  have v: "vec_x (body_velocity (physicsBody sliding_player)) = 20"
    "vec_z (body_velocity (physicsBody sliding_player)) = 0" "onGround sliding_player"
    by (simp_all add: sliding_player_def landed_body_def Vector3_new_def)
  have "vec_x (body_velocity (physicsBody (Movement_update 1010 (1 / 120) sliding_player))) = 479 / 24"
    "vec_z (body_velocity (physicsBody (Movement_update 1010 (1 / 120) sliding_player))) = 0"
    by (simp_all add: Movement_update_idle[OF i] applyFriction_velocity h v groundFriction_def)
  then show ?thesis
    by (simp add: horizontalSpeed_eq)
qed

lemma aim_hasChangedDirection:
  "hasChangedDirection (movement (aim now p)) =
     (lengthSq (lastDirection (movement p)) \<noteq> 0 \<and>
      (dot (lastDirection (movement p)) (moveDirection (movement (aim now p))) < directionChangeThreshold
       \<or> hasChangedDirection (movement p) \<and> now - directionChangeTime (movement p) < 100))"
  by (simp add: aim_def Let_def detectDirectionChange_def calculateMoveDirection_def)

lemma forward_direction:
  assumes "moveInput p = Vector3_new 0 0 (- 1)"
  shows "moveDirection (movement (aim now p)) =
     Vector3_new (- sin (eul_y (viewRotation p))) 0 (- cos (eul_y (viewRotation p)))"
proof -
  have m: "(if 1 < lengthSq (moveInput p) then normalize (moveInput p) else moveInput p) =
      Vector3_new 0 0 (- 1)"
    by (simp add: assms lengthSq_def Vector3_new_def)
  have y: "yawDirection th (Vector3_new 0 0 (- 1)) = Vector3_new (- sin th) 0 (- cos th)" for th
    by (simp add: yawDirection_def Vector3_new_def)
  show ?thesis
    unfolding aim_moveDirection m moveDirection_calc y Let_def
    by (simp add: unit_yaw1 normalize_unit)
qed

lemma rushing_velocity:
  "vec_x (body_velocity (physicsBody (Player_update (tick 1010) (1 / 240) rushing_player))) = 0"
  "vec_z (body_velocity (physicsBody (Player_update (tick 1010) (1 / 240) rushing_player))) = - (66 / 5)"
proof -
  let ?q = "update_jump 1010 1010 (update_ground 1010 rushing_player)"
  let ?a = "aim 1010 ?q"
  have g: "update_ground 1010 rushing_player =
      rushing_player\<lparr>position := Vector3_new 0 1 0, velocity := Vector3_new 0 0 (- 30)\<rparr>"
    by (simp add: update_ground_def Let_def rushing_player_def grounded_player_def
        coyote_player_def player0_def Player_new_def landed_body_def)
  have q: "?q = (setVelocityY jumpForce (rushing_player\<lparr>position := Vector3_new 0 1 0,
        velocity := Vector3_new 0 0 (- 30)\<rparr>))
        \<lparr>jumpCount := 1, lastJumpTime := 1010, isJumping := True, jumpRequested := False\<rparr>"
    unfolding g
    by (simp add: update_jump_def processJump_def Let_def applyJumpBoost_def setVelocityY_def
        rushing_player_def grounded_player_def coyote_player_def player0_def Player_new_def
        landed_body_def jumpBufferWindow_def Movement_new_def Vector3_new_def lengthSq_def)
  have f: "moveInput ?q = Vector3_new 0 0 (- 1)" "eul_y (viewRotation ?q) = 0"
    "isJumping ?q" "jumpCount ?q = 1" "onGround ?q" "\<not> isSprinting ?q"
    "lastDirection (movement ?q) = Vector3_new 0 0 (- 1)"
    "\<not> hasChangedDirection (movement ?q)"
    "body_velocity (physicsBody ?q) = \<lparr>vec_x = 0, vec_y = jumpForce, vec_z = - 30\<rparr>"
    unfolding q
    by (simp_all add: setVelocityY_def rushing_player_def grounded_player_def coyote_player_def
        player0_def Player_new_def Euler_new_def Movement_new_def landed_body_def Vector3_new_def)
  have i: "lengthSq (moveInput ?q) \<noteq> 0"
    by (simp add: f lengthSq_def Vector3_new_def)
  have d: "moveDirection (movement ?a) = Vector3_new 0 0 (- 1)"
    by (simp add: forward_direction[OF f(1)] f(2))
  have h: "\<not> hasChangedDirection (movement ?a)"
    by (simp add: aim_hasChangedDirection d f dot_def Vector3_new_def lengthSq_def
        directionChangeThreshold_def)
  have t: "targetVelocity (movement ?a) = \<lparr>vec_x = 0, vec_y = 0, vec_z = - 6\<rparr>"
    by (simp add: aim_targetVelocity d f multiplyScalar_def Vector3_new_def walkSpeed_def)
  have c: "currentVelocity ?a = \<lparr>vec_x = 0, vec_y = 0, vec_z = - 30\<rparr>"
    by (simp add: currentVelocity_def aim_frame f horizontal_def Vector3_new_def)
  have b: "blendVelocity (1 / 240) ?a = \<lparr>vec_x = 0, vec_y = 0, vec_z = - 15\<rparr>"
    by (simp add: blendVelocity_def Let_def h t c vec_length_z aim_frame f groundAcceleration_def
        subVectors_def multiplyScalar_def addVectors_def)
  have l: "limitSpeed (blendVelocity (1 / 240) ?a) = \<lparr>vec_x = 0, vec_y = 0, vec_z = - 12\<rparr>"
    by (simp add: b limitSpeed_def Let_def vec_length_z maxSpeed_def multiplyScalar_def)
  have m: "physicsBody (Player_update (tick 1010) (1 / 240) rushing_player) =
      physicsBody (applyAccelerationWithMomentum (1 / 240) ?a)"
    unfolding Player_update_def tick_def
    using Movement_update_moving[OF i, of 1010 "1 / 240"] by simp
  show "vec_x (body_velocity (physicsBody (Player_update (tick 1010) (1 / 240) rushing_player))) = 0"
    "vec_z (body_velocity (physicsBody (Player_update (tick 1010) (1 / 240) rushing_player))) = - (66 / 5)"
    by (simp_all add: m applyAcceleration_velocity l aim_frame f d Vector3_new_def
        jumpBoostForward_def walkSpeed_def)
qed

lemma rushing_speed:
  "horizontalSpeed (Player_update (tick 1010) (1 / 240) rushing_player) = 66 / 5"
  by (simp add: horizontalSpeed_eq rushing_velocity)

lemma Movement_update_isJumping: "isJumping (Movement_update now dt p) \<Longrightarrow> isJumping p"
  by (simp add: Movement_update_def Let_def applyFriction_def setVelocityXZ_def
      applyAccelerationWithMomentum_def calculateMoveDirection_def detectDirectionChange_def
      split: if_splits)

lemma update_jump_idle: "\<not> jumpRequested p \<Longrightarrow> update_jump now jt p = p"
  by (simp add: update_jump_def)

lemma Player_update_no_jump:
  assumes "\<not> isJumping p" "\<not> jumpRequested p"
  shows "\<not> isJumping (Player_update clk dt p)" "\<not> jumpRequested (Player_update clk dt p)"
proof -
  let ?g = "update_ground (now_update clk) p"
  have g: "\<not> isJumping ?g" "\<not> jumpRequested ?g"
    using assms by (simp_all add: update_ground_frame)
  have u: "Player_update clk dt p = Movement_update (now_move clk) dt ?g"
    by (simp add: Player_update_def update_jump_idle[OF g(2)])
  show "\<not> isJumping (Player_update clk dt p)"
    unfolding u using g(1) Movement_update_isJumping by blast
  show "\<not> jumpRequested (Player_update clk dt p)"
    unfolding u using g(2) by (simp add: Movement_update_frame)
qed

lemma step_no_jump:
  assumes "\<not> isJumping p" "\<not> jumpRequested p" "\<not> jump_press e"
  shows "\<not> isJumping (step p e) \<and> \<not> jumpRequested (step p e)"
proof (cases e)
  case (KeyDown k t)
  with assms show ?thesis by (cases k) (simp_all add: setMoveX_def setMoveZ_def)
next
  case (KeyUp k)
  with assms show ?thesis by (cases k) (simp_all add: setMoveX_def setMoveZ_def)
next
  case (MouseMove dx dy)
  with assms show ?thesis by (simp add: rotate_def Let_def)
next
  case (Physics b)
  with assms show ?thesis by simp
next
  case (Spawn spawnPos rotation)
  with assms show ?thesis by (simp add: setPlayerSpawn_def Let_def split: option.split)
next
  case (Frame clk dt)
  with Player_update_no_jump[OF assms(1,2)] show ?thesis by simp
qed

lemma run_no_jump:
  assumes "\<not> isJumping p" "\<not> jumpRequested p" "\<forall>e\<in>set es. \<not> jump_press e"
  shows "\<not> isJumping (run p es) \<and> \<not> jumpRequested (run p es)"
  using assms
proof (induction es arbitrary: p)
  case Nil
  then show ?case by simp
next
  case (Cons e es)
  from Cons.prems have "\<not> jump_press e" and r: "\<forall>e\<in>set es. \<not> jump_press e" by simp_all
  from step_no_jump[OF Cons.prems(1,2) this(1)]
  have "\<not> isJumping (step p e)" "\<not> jumpRequested (step p e)" by simp_all
  from Cons.IH[OF this r] show ?case by simp
qed

lemma Player_update_capped:
  assumes "\<not> isJumping p" "\<not> jumpRequested p" "lengthSq (moveInput p) \<noteq> 0"
  shows "horizontalSpeed (Player_update clk dt p) \<le> maxSpeed"
proof -
  let ?g = "update_ground (now_update clk) p"
  have g: "\<not> isJumping ?g" "\<not> jumpRequested ?g" "lengthSq (moveInput ?g) \<noteq> 0"
    using assms by (simp_all add: update_ground_frame)
  have u: "Player_update clk dt p = Movement_update (now_move clk) dt ?g"
    by (simp add: Player_update_def update_jump_idle[OF g(2)])
  show ?thesis
    unfolding u using g(1) by (intro moving_speed_capped[OF g(3)]) simp
qed


text \<open>
  Claim C6. The result of either blending regime passes through the speed cap before it is
  written to the body: a vector longer than \<^verbatim>\<open>maxSpeed\<close> is rescaled by a positive factor
  to length exactly \<^verbatim>\<open>maxSpeed\<close>, any other vector is left unchanged, and on a tick with
  nonzero input and no pending jump boost the written X and Z components are those of the
  capped vector, so the horizontal speed is at most \<^verbatim>\<open>maxSpeed\<close>. Consequently, after any
  history without a jump press that starts at the constructed player, a frame with nonzero
  input leaves the horizontal speed at most \<^verbatim>\<open>maxSpeed\<close>.
\<close>

theorem C6_speed_cap:
  "(maxSpeed < vec_length v \<longrightarrow>
      vec_length (limitSpeed v) = maxSpeed
      \<and> limitSpeed v = multiplyScalar v (maxSpeed / vec_length v)
      \<and> 0 < maxSpeed / vec_length v)
   \<and> (vec_length v \<le> maxSpeed \<longrightarrow> limitSpeed v = v)
   \<and> (lengthSq (moveInput p) \<noteq> 0 \<and> \<not> (isJumping p \<and> jumpCount p = 1) \<longrightarrow>
        vec_x (body_velocity (physicsBody (Movement_update now dt p))) =
          vec_x (limitSpeed (blendVelocity dt (aim now p)))
        \<and> vec_z (body_velocity (physicsBody (Movement_update now dt p))) =
          vec_z (limitSpeed (blendVelocity dt (aim now p)))
        \<and> horizontalSpeed (Movement_update now dt p) \<le> maxSpeed)
   \<and> ((\<forall>e\<in>set es. \<not> jump_press e) \<and> s = run (Player_new cfg ms b) es
        \<and> lengthSq (moveInput s) \<noteq> 0 \<longrightarrow>
        horizontalSpeed (Player_update clk dt s) \<le> maxSpeed)"
proof (intro conjI impI)
  assume a: "maxSpeed < vec_length v"
  then show "vec_length (limitSpeed v) = maxSpeed" by (rule limitSpeed_exceeds)
  from a show "limitSpeed v = multiplyScalar v (maxSpeed / vec_length v)"
    by (simp add: limitSpeed_def Let_def)
  from a maxSpeed_pos show "0 < maxSpeed / vec_length v" by simp
next
  assume "vec_length v \<le> maxSpeed"
  then show "limitSpeed v = v" by (rule limitSpeed_within)
next
  assume a: "lengthSq (moveInput p) \<noteq> 0 \<and> \<not> (isJumping p \<and> jumpCount p = 1)"
  then have i: "lengthSq (moveInput p) \<noteq> 0" and j: "\<not> (isJumping p \<and> jumpCount p = 1)"
    by simp_all
  from j show "vec_x (body_velocity (physicsBody (Movement_update now dt p))) =
          vec_x (limitSpeed (blendVelocity dt (aim now p)))"
    by (auto simp add: Movement_update_moving[OF i] applyAcceleration_velocity aim_frame)
  from j show "vec_z (body_velocity (physicsBody (Movement_update now dt p))) =
          vec_z (limitSpeed (blendVelocity dt (aim now p)))"
    by (auto simp add: Movement_update_moving[OF i] applyAcceleration_velocity aim_frame)
  show "horizontalSpeed (Movement_update now dt p) \<le> maxSpeed"
    by (rule moving_speed_capped[OF i j])
next
  assume a: "(\<forall>e\<in>set es. \<not> jump_press e) \<and> s = run (Player_new cfg ms b) es
        \<and> lengthSq (moveInput s) \<noteq> 0"
  then have es: "\<forall>e\<in>set es. \<not> jump_press e" and s: "s = run (Player_new cfg ms b) es"
    and i: "lengthSq (moveInput s) \<noteq> 0" by blast+
  have "\<not> isJumping (Player_new cfg ms b)" "\<not> jumpRequested (Player_new cfg ms b)"
    by (simp_all add: Player_new_def)
  from run_no_jump[OF this es]
  have "\<not> isJumping s" "\<not> jumpRequested s" unfolding s by simp_all
  from Player_update_capped[OF this i]
  show "horizontalSpeed (Player_update clk dt s) \<le> maxSpeed" .
qed

text \<open>The theorem at a vector of length 15, one of length 6, and a player who starts to walk.\<close>

theorem C6_speed_cap_witness:
  "vec_length (limitSpeed (Vector3_new 0 0 (- 15))) = maxSpeed
   \<and> limitSpeed (Vector3_new 0 0 (- 6)) = Vector3_new 0 0 (- 6)
   \<and> horizontalSpeed (Movement_update 1010 (1 / 60) resting_player) \<le> maxSpeed
   \<and> horizontalSpeed (Player_update (tick 32) (1 / 60) (run player0 walk_events)) \<le> maxSpeed"
proof -
  have v: "maxSpeed < vec_length (Vector3_new 0 0 (- 15))"
    "vec_length (Vector3_new 0 0 (- 6)) \<le> maxSpeed"
    by (simp_all add: Vector3_new_def vec_length_z maxSpeed_def)
  have r: "lengthSq (moveInput resting_player) \<noteq> 0 \<and>
      \<not> (isJumping resting_player \<and> jumpCount resting_player = 1)"
    by (simp add: resting_player_def player0_def Player_new_def lengthSq_def Vector3_new_def)
  have e: "(\<forall>e\<in>set walk_events. \<not> jump_press e)
      \<and> run player0 walk_events =
          run (Player_new None None \<lparr>body_position = Vector3_new 0 2 0,
            body_velocity = Vector3_new 0 0 0, body_onGround = False\<rparr>) walk_events
      \<and> lengthSq (moveInput (run player0 walk_events)) \<noteq> 0"
    by (simp add: walk_events_def Player_update_frame setMoveZ_def player0_def Player_new_def
        lengthSq_def Vector3_new_def)
  note t1 = C6_speed_cap[where v = "Vector3_new 0 0 (- 15)" and p = resting_player and now = 1010
        and es = walk_events and s = "run player0 walk_events" and cfg = None and ms = None
        and b = "\<lparr>body_position = Vector3_new 0 2 0, body_velocity = Vector3_new 0 0 0,
          body_onGround = False\<rparr>" and clk = "tick 32" and dt = "1 / 60"]
  note t2 = C6_speed_cap[where v = "Vector3_new 0 0 (- 6)" and p = resting_player and now = 1010
        and es = walk_events and s = "run player0 walk_events" and cfg = None and ms = None
        and b = "\<lparr>body_position = Vector3_new 0 2 0, body_velocity = Vector3_new 0 0 0,
          body_onGround = False\<rparr>" and clk = "tick 32" and dt = "1 / 60"]
  from t1 v(1) have 1: "vec_length (limitSpeed (Vector3_new 0 0 (- 15))) = maxSpeed" by blast
  from t2 v(2) have 2: "limitSpeed (Vector3_new 0 0 (- 6)) = Vector3_new 0 0 (- 6)" by blast
  from t1 r have 3: "horizontalSpeed (Movement_update 1010 (1 / 60) resting_player) \<le> maxSpeed"
    by blast
  from t1 e have 4: "horizontalSpeed (Player_update (tick 32) (1 / 60)
      (run player0 walk_events)) \<le> maxSpeed" by blast
  from 1 2 3 4 show ?thesis by blast
qed

text \<open>
  Claim C10, as the code has it. On every tick with nonzero move input the horizontal speed
  written by \<^verbatim>\<open>Movement.update\<close> is at most \<^verbatim>\<open>maxSpeed + jumpBoostForward * walkSpeed\<close>,
  because the boost is added to the capped vector; on a tick with zero input (and a
  non-negative frame time) the friction path only keeps or lowers the speed, without any
  cap. On a ground-jump tick with a fast body the speed written exceeds \<^verbatim>\<open>maxSpeed\<close>.
\<close>

theorem C10_boost_after_cap:
  "(lengthSq (moveInput p) \<noteq> 0 \<longrightarrow>
      horizontalSpeed (Movement_update now dt p) \<le> maxSpeed + jumpBoostForward * walkSpeed)
   \<and> (lengthSq (moveInput p) = 0 \<and> 0 \<le> dt \<longrightarrow>
      horizontalSpeed (Movement_update now dt p) \<le> horizontalSpeed p)
   \<and> vec_x (body_velocity (physicsBody (applyAccelerationWithMomentum dt p))) =
       vec_x (limitSpeed (blendVelocity dt p)) +
         (if isJumping p \<and> jumpCount p = 1
          then vec_x (moveDirection (movement p)) * (jumpBoostForward * walkSpeed) else 0)
   \<and> vec_z (body_velocity (physicsBody (applyAccelerationWithMomentum dt p))) =
       vec_z (limitSpeed (blendVelocity dt p)) +
         (if isJumping p \<and> jumpCount p = 1
          then vec_z (moveDirection (movement p)) * (jumpBoostForward * walkSpeed) else 0)
   \<and> maxSpeed < horizontalSpeed (Player_update (tick 1010) (1 / 240) rushing_player)"
proof (intro conjI impI)
  assume "lengthSq (moveInput p) \<noteq> 0"
  then show "horizontalSpeed (Movement_update now dt p) \<le> maxSpeed + jumpBoostForward * walkSpeed"
    by (rule moving_speed_bound)
next
  assume a: "lengthSq (moveInput p) = 0 \<and> 0 \<le> dt"
  then have "horizontalSpeed (applyFriction dt p) \<le> horizontalSpeed p"
    by (simp add: friction_decay)
  with a show "horizontalSpeed (Movement_update now dt p) \<le> horizontalSpeed p"
    using horizontalSpeed_body[OF Movement_update_idle, of p now dt] by simp
next
  show "maxSpeed < horizontalSpeed (Player_update (tick 1010) (1 / 240) rushing_player)"
    by (simp add: rushing_speed maxSpeed_def)
qed (rule applyAcceleration_velocity)+


text \<open>The theorem at a player who starts to walk and at a body sliding at speed 20.\<close>

theorem C10_boost_after_cap_witness:
  "horizontalSpeed (Movement_update 1010 (1 / 120) resting_player)
      \<le> maxSpeed + jumpBoostForward * walkSpeed
   \<and> horizontalSpeed (Movement_update 1010 (1 / 120) sliding_player) \<le> 20"
proof -
  have r: "lengthSq (moveInput resting_player) \<noteq> 0"
    by (simp add: resting_player_def lengthSq_def Vector3_new_def)
  have s: "lengthSq (moveInput sliding_player) = 0" "horizontalSpeed sliding_player = 20"
    by (simp_all add: sliding_player_def player0_def Player_new_def lengthSq_def Vector3_new_def
        horizontalSpeed_def landed_body_def horizontal_def vec_length_x)
  show ?thesis
    using C10_boost_after_cap[of resting_player 1010 "1 / 120"]
      C10_boost_after_cap[of sliding_player 1010 "1 / 120"] r s
    by simp
qed


text \<open>
  Claim C10 as stated fails on an idle tick: a body sliding at speed 20 with no key held
  leaves \<^verbatim>\<open>Movement.update\<close> at speed 479/24, above 13.2.
\<close>

theorem C10_counterexample:
  "\<not> horizontalSpeed (Movement_update 1010 (1 / 120) sliding_player)
       \<le> maxSpeed + jumpBoostForward * walkSpeed"
  by (simp add: sliding_speed maxSpeed_def jumpBoostForward_def walkSpeed_def)

section \<open>The first tick from rest\<close>

lemma vec_length_Vector3: "vec_length (Vector3_new a 0 b) = sqrt (a\<^sup>2 + b\<^sup>2)"
  by (simp add: vec_length_def Vector3_new_def power2_eq_square)

lemma sqrt_scaled_unit: "sqrt ((k * - sin t)\<^sup>2 + (k * - cos t)\<^sup>2) = \<bar>k\<bar>"
proof -
  have "(k * - sin t)\<^sup>2 + (k * - cos t)\<^sup>2 = k\<^sup>2 * ((sin t)\<^sup>2 + (cos t)\<^sup>2)"
    by (simp only: power_mult_distrib distrib_left power2_minus)
  then show ?thesis by simp
qed


text \<open>
  Claim C2, as the code has it. With \<^verbatim>\<open>walkSpeed = 6.0\<close>, \<^verbatim>\<open>groundAcceleration = 150.0\<close> and
  \<^verbatim>\<open>dirChangeBoostMultiplier = 4.0\<close>, starting from zero horizontal velocity on the ground
  with forward input, a single tick at \<open>dt = 1/120\<close> uses the step factor
  \<open>min (150 * 4 / 120) 1.0 = 1.0\<close>, so the velocity is set to the target at once: the
  horizontal speed after the tick is exactly 6.0, in the forward direction of the view yaw.
\<close>

theorem C2_first_tick_from_rest:
  assumes "moveInput p = Vector3_new 0 0 (- 1)"
    and "vec_x (body_velocity (physicsBody p)) = 0" "vec_z (body_velocity (physicsBody p)) = 0"
    and "onGround p" "\<not> isSprinting p" "\<not> (isJumping p \<and> jumpCount p = 1)"
  shows "min (groundAcceleration * dirChangeBoostMultiplier * (1 / 120)) 1.0 = 1
    \<and> vec_x (body_velocity (physicsBody (Movement_update now (1 / 120) p))) =
        walkSpeed * (- sin (eul_y (viewRotation p)))
    \<and> vec_z (body_velocity (physicsBody (Movement_update now (1 / 120) p))) =
        walkSpeed * (- cos (eul_y (viewRotation p)))
    \<and> horizontalSpeed (Movement_update now (1 / 120) p) = walkSpeed"
proof -
  let ?th = "eul_y (viewRotation p)"
  let ?a = "aim now p"
  have i: "lengthSq (moveInput p) \<noteq> 0"
    by (simp add: assms(1) lengthSq_def Vector3_new_def)
  have d: "moveDirection (movement ?a) = Vector3_new (- sin ?th) 0 (- cos ?th)"
    by (rule forward_direction[OF assms(1)])
  have t: "targetVelocity (movement ?a) = Vector3_new (walkSpeed * (- sin ?th)) 0 (walkSpeed * (- cos ?th))"
    by (simp add: aim_targetVelocity d assms multiplyScalar_def Vector3_new_def)
  have c: "currentVelocity ?a = \<lparr>vec_x = 0, vec_y = 0, vec_z = 0\<rparr>"
    by (simp add: currentVelocity_def aim_frame assms horizontal_def Vector3_new_def)
  have f: "min (groundAcceleration * dirChangeBoostMultiplier * (1 / 120)) 1.0 = (1::real)"
    by (simp add: groundAcceleration_def dirChangeBoostMultiplier_def)
  have b: "blendVelocity (1 / 120) ?a = targetVelocity (movement ?a)"
    using f
    by (simp add: blendVelocity_def Let_def c vec_length_z aim_frame assms
        subVectors_def multiplyScalar_def addVectors_def)
  have "vec_length (targetVelocity (movement ?a)) = walkSpeed"
    unfolding t vec_length_Vector3 sqrt_scaled_unit by (simp add: walkSpeed_def)
  then have l: "limitSpeed (blendVelocity (1 / 120) ?a) = targetVelocity (movement ?a)"
    by (simp add: b limitSpeed_def Let_def walkSpeed_def maxSpeed_def)
  have x: "vec_x (body_velocity (physicsBody (Movement_update now (1 / 120) p))) =
        walkSpeed * (- sin ?th)"
    and z: "vec_z (body_velocity (physicsBody (Movement_update now (1 / 120) p))) =
        walkSpeed * (- cos ?th)"
    using assms(6)
    by (auto simp add: Movement_update_moving[OF i] applyAcceleration_velocity l t aim_frame
        Vector3_new_def)
  have "horizontalSpeed (Movement_update now (1 / 120) p) = walkSpeed"
    unfolding horizontalSpeed_eq x z sqrt_scaled_unit by (simp add: walkSpeed_def)
  with f x z show ?thesis by simp
qed


text \<open>The theorem at the resting player looking along yaw 0.\<close>

theorem C2_first_tick_from_rest_witness:
  "vec_x (body_velocity (physicsBody (Movement_update 1010 (1 / 120) resting_player))) = 0
   \<and> vec_z (body_velocity (physicsBody (Movement_update 1010 (1 / 120) resting_player))) = - 6
   \<and> horizontalSpeed (Movement_update 1010 (1 / 120) resting_player) = 6"
proof -
  have r: "moveInput resting_player = Vector3_new 0 0 (- 1)"
    "vec_x (body_velocity (physicsBody resting_player)) = 0"
    "vec_z (body_velocity (physicsBody resting_player)) = 0"
    "onGround resting_player" "\<not> isSprinting resting_player"
    "\<not> (isJumping resting_player \<and> jumpCount resting_player = 1)"
    by (simp_all add: resting_player_def player0_def Player_new_def landed_body_def Vector3_new_def)
  have y: "eul_y (viewRotation resting_player) = 0"
    by (simp add: resting_player_def player0_def Player_new_def Euler_new_def)
  show ?thesis
    using C2_first_tick_from_rest[OF r, of 1010] by (simp add: y walkSpeed_def)
qed


text \<open>
  Claim C2 as stated fails: from rest the speed after the tick is 6, which is not within
  1 of 5.
\<close>

theorem C2_counterexample:
  "moveInput resting_player = Vector3_new 0 0 (- 1)
   \<and> horizontalSpeed resting_player = 0
   \<and> onGround resting_player
   \<and> horizontalSpeed (Movement_update 1010 (1 / 120) resting_player) = 6
   \<and> \<not> \<bar>horizontalSpeed (Movement_update 1010 (1 / 120) resting_player) - 5\<bar> < 1"
proof -
  have r: "moveInput resting_player = Vector3_new 0 0 (- 1)"
    "vec_x (body_velocity (physicsBody resting_player)) = 0"
    "vec_z (body_velocity (physicsBody resting_player)) = 0"
    "onGround resting_player" "\<not> isSprinting resting_player"
    "isJumping resting_player = False" "jumpCount resting_player = 0"
    "eul_y (viewRotation resting_player) = 0"
    "hasChangedDirection (movement resting_player) = False"
    "lastDirection (movement resting_player) = Vector3_new 0 0 0"
    by (simp_all add: resting_player_def player0_def Player_new_def landed_body_def Vector3_new_def
        Euler_new_def Movement_new_def)
  have i: "lengthSq (moveInput resting_player) \<noteq> 0"
    by (simp add: r lengthSq_def Vector3_new_def)
  let ?a = "aim 1010 resting_player"
  have d: "moveDirection (movement ?a) = \<lparr>vec_x = 0, vec_y = 0, vec_z = - 1\<rparr>"
    by (simp add: forward_direction[OF r(1)] r Vector3_new_def)
  have t: "targetVelocity (movement ?a) = \<lparr>vec_x = 0, vec_y = 0, vec_z = - 6\<rparr>"
    by (simp add: aim_targetVelocity d r multiplyScalar_def walkSpeed_def)
  have c: "currentVelocity ?a = \<lparr>vec_x = 0, vec_y = 0, vec_z = 0\<rparr>"
    by (simp add: currentVelocity_def aim_frame r horizontal_def Vector3_new_def)
  have b: "blendVelocity (1 / 120) ?a = \<lparr>vec_x = 0, vec_y = 0, vec_z = - 6\<rparr>"
    by (simp add: blendVelocity_def Let_def c t vec_length_z aim_frame r
        groundAcceleration_def dirChangeBoostMultiplier_def
        subVectors_def multiplyScalar_def addVectors_def)
  have l: "limitSpeed (blendVelocity (1 / 120) ?a) = \<lparr>vec_x = 0, vec_y = 0, vec_z = - 6\<rparr>"
    by (simp add: b limitSpeed_def Let_def vec_length_z maxSpeed_def)
  have s: "horizontalSpeed (Movement_update 1010 (1 / 120) resting_player) = 6"
    by (simp add: horizontalSpeed_eq Movement_update_moving[OF i] applyAcceleration_velocity l
        aim_frame r)
  have h: "horizontalSpeed resting_player = 0"
    by (simp add: horizontalSpeed_eq r)
  show ?thesis
    using r(1,4) h s by simp
qed

section \<open>Momentum through a turn\<close>

lemma blend_momentum:
  assumes "hasChangedDirection (movement p)" "2.0 < vec_length (currentVelocity p)"
  shows "blendVelocity dt p =
      addScaledVector (multiplyScalar (currentVelocity p) momentumRetention)
        (targetVelocity (movement p)) (1 - momentumRetention)"
  using assms by (simp add: blendVelocity_def Let_def)

lemma blend_momentum_xz:
  assumes "hasChangedDirection (movement p)" "2.0 < vec_length (currentVelocity p)"
  shows "vec_x (blendVelocity dt p) =
      vec_x (body_velocity (physicsBody p)) * 0.9 + vec_x (targetVelocity (movement p)) * 0.1"
    and "vec_y (blendVelocity dt p) = vec_y (targetVelocity (movement p)) * 0.1"
    and "vec_z (blendVelocity dt p) =
      vec_z (body_velocity (physicsBody p)) * 0.9 + vec_z (targetVelocity (movement p)) * 0.1"
  by (simp_all add: blend_momentum[OF assms] addScaledVector_def multiplyScalar_def
      currentVelocity_def horizontal_def Vector3_new_def momentumRetention_def)

lemma vec_length_flat: "vec_y v = 0 \<Longrightarrow> vec_length v = sqrt ((vec_x v)\<^sup>2 + (vec_z v)\<^sup>2)"
  by (simp add: vec_length_def power2_eq_square)

lemma turn_keeps_under_cap:
  assumes h: "hasChangedDirection (movement (aim now p))"
    and s: "2 < horizontalSpeed p" "horizontalSpeed p \<le> maxSpeed"
  shows "limitSpeed (blendVelocity dt (aim now p)) = blendVelocity dt (aim now p)"
proof -
  let ?a = "aim now p"
  let ?t = "targetVelocity (movement ?a)"
  let ?v = "body_velocity (physicsBody p)"
  have c: "2.0 < vec_length (currentVelocity ?a)"
    using s(1) by (simp add: currentVelocity_def aim_frame horizontalSpeed_def)
  note b = blend_momentum_xz[OF h c, of dt, unfolded aim_frame]
  have ty: "vec_y ?t = 0"
    by (simp add: aim_targetVelocity multiplyScalar_def aim_moveDirection_y)
  have tl: "vec_length ?t \<le> 10"
  proof -
    have "vec_length ?t = (if isSprinting p then runSpeed else walkSpeed) * vec_length (moveDirection (movement ?a))"
      by (simp add: aim_targetVelocity vec_length_multiplyScalar runSpeed_def walkSpeed_def)
    also have "\<dots> \<le> 10 * 1"
      by (intro mult_mono aim_moveDirection_le1)
        (simp_all add: runSpeed_def walkSpeed_def vec_length_nonneg)
    finally show ?thesis by simp
  qed
  have "vec_length (blendVelocity dt ?a) =
      sqrt ((vec_x ?v * 0.9 + vec_x ?t * 0.1)\<^sup>2 + (vec_z ?v * 0.9 + vec_z ?t * 0.1)\<^sup>2)"
    by (simp add: vec_length_flat b ty)
  also have "\<dots> \<le> sqrt ((vec_x ?v * 0.9)\<^sup>2 + (vec_z ?v * 0.9)\<^sup>2)
      + sqrt ((vec_x ?t * 0.1)\<^sup>2 + (vec_z ?t * 0.1)\<^sup>2)"
    by (rule real_sqrt_sum_squares_triangle_ineq)
  also have "\<dots> = 0.9 * horizontalSpeed p + 0.1 * sqrt ((vec_x ?t)\<^sup>2 + (vec_z ?t)\<^sup>2)"
    by (simp only: sqrt_scaled horizontalSpeed_eq)
  also have "\<dots> \<le> 0.9 * maxSpeed + 0.1 * 10"
    using s(2) sqrt_xz_le[of ?t] tl by simp
  also have "\<dots> \<le> maxSpeed" by (simp add: maxSpeed_def)
  finally show ?thesis by (rule limitSpeed_within)
qed


text \<open>
  Claim C5. On a tick where the direction-change flag is set and the current horizontal
  speed exceeds 2.0, the new velocity before the cap is
  \<open>currentVelocity * momentumRetention + targetVelocity * (1 - momentumRetention)\<close>, that is
  \<open>0.9 * current + 0.1 * target\<close> in each horizontal component. In particular, from a
  horizontal speed of 8.0, with a previous move direction on record and a new move direction
  whose dot product with it is below the threshold, \<^verbatim>\<open>Movement.update\<close> sets the flag and
  writes that blend (the cap does not change it) instead of the accelerated value.
\<close>

theorem C5_momentum_blend:
  "(hasChangedDirection (movement p) \<and> 2.0 < vec_length (currentVelocity p) \<longrightarrow>
      blendVelocity dt p =
        addScaledVector (multiplyScalar (currentVelocity p) momentumRetention)
          (targetVelocity (movement p)) (1 - momentumRetention)
      \<and> vec_x (blendVelocity dt p) =
          vec_x (body_velocity (physicsBody p)) * 0.9 + vec_x (targetVelocity (movement p)) * 0.1
      \<and> vec_z (blendVelocity dt p) =
          vec_z (body_velocity (physicsBody p)) * 0.9 + vec_z (targetVelocity (movement p)) * 0.1)
   \<and> (lengthSq (moveInput p) \<noteq> 0 \<and> lengthSq (lastDirection (movement p)) \<noteq> 0
       \<and> dot (lastDirection (movement p)) (moveDirection (movement (aim now p)))
            < directionChangeThreshold
       \<and> horizontalSpeed p = 8.0 \<and> \<not> (isJumping p \<and> jumpCount p = 1) \<longrightarrow>
       hasChangedDirection (movement (aim now p))
       \<and> vec_x (body_velocity (physicsBody (Movement_update now dt p))) =
           vec_x (body_velocity (physicsBody p)) * 0.9
             + vec_x (targetVelocity (movement (aim now p))) * 0.1
       \<and> vec_z (body_velocity (physicsBody (Movement_update now dt p))) =
           vec_z (body_velocity (physicsBody p)) * 0.9
             + vec_z (targetVelocity (movement (aim now p))) * 0.1)"
proof (intro conjI impI)
  assume a: "hasChangedDirection (movement p) \<and> 2.0 < vec_length (currentVelocity p)"
  then have h: "hasChangedDirection (movement p)" and c: "2.0 < vec_length (currentVelocity p)"
    by blast+
  show "blendVelocity dt p =
        addScaledVector (multiplyScalar (currentVelocity p) momentumRetention)
          (targetVelocity (movement p)) (1 - momentumRetention)"
    by (rule blend_momentum[OF h c])
  show "vec_x (blendVelocity dt p) =
          vec_x (body_velocity (physicsBody p)) * 0.9 + vec_x (targetVelocity (movement p)) * 0.1"
    by (rule blend_momentum_xz(1)[OF h c])
  show "vec_z (blendVelocity dt p) =
          vec_z (body_velocity (physicsBody p)) * 0.9 + vec_z (targetVelocity (movement p)) * 0.1"
    by (rule blend_momentum_xz(3)[OF h c])
next
  let ?a = "aim now p"
  assume a: "lengthSq (moveInput p) \<noteq> 0 \<and> lengthSq (lastDirection (movement p)) \<noteq> 0
       \<and> dot (lastDirection (movement p)) (moveDirection (movement (aim now p)))
            < directionChangeThreshold
       \<and> horizontalSpeed p = 8.0 \<and> \<not> (isJumping p \<and> jumpCount p = 1)"
  then have i: "lengthSq (moveInput p) \<noteq> 0" and s: "horizontalSpeed p = 8"
    and j: "\<not> (isJumping p \<and> jumpCount p = 1)" by simp_all
  from a show h: "hasChangedDirection (movement ?a)"
    by (simp add: aim_hasChangedDirection)
  have c: "2.0 < vec_length (currentVelocity ?a)"
    using s by (simp add: currentVelocity_def aim_frame horizontalSpeed_def)
  have l: "limitSpeed (blendVelocity dt ?a) = blendVelocity dt ?a"
    by (rule turn_keeps_under_cap[OF h]) (simp_all add: s maxSpeed_def)
  note b = blend_momentum_xz[OF h c, of dt, unfolded aim_frame]
  from j show "vec_x (body_velocity (physicsBody (Movement_update now dt p))) =
           vec_x (body_velocity (physicsBody p)) * 0.9
             + vec_x (targetVelocity (movement (aim now p))) * 0.1"
    by (auto simp add: Movement_update_moving[OF i] applyAcceleration_velocity l b aim_frame)
  from j show "vec_z (body_velocity (physicsBody (Movement_update now dt p))) =
           vec_z (body_velocity (physicsBody p)) * 0.9
             + vec_z (targetVelocity (movement (aim now p))) * 0.1"
    by (auto simp add: Movement_update_moving[OF i] applyAcceleration_velocity l b aim_frame)
qed


text \<open>The theorem at a player moving forward at speed 8 whose input flips to backward.\<close>

theorem C5_momentum_blend_witness:
  "hasChangedDirection (movement (aim 1010 turning_player))
   \<and> vec_x (body_velocity (physicsBody (Movement_update 1010 (1 / 120) turning_player))) = 0
   \<and> vec_z (body_velocity (physicsBody (Movement_update 1010 (1 / 120) turning_player))) = - 6.6
   \<and> vec_z (blendVelocity (1 / 120) (aim 1010 turning_player)) = - 6.6"
proof -
  let ?a = "aim 1010 turning_player"
  have r: "moveInput turning_player = Vector3_new 0 0 1"
    "eul_y (viewRotation turning_player) = 0"
    "lastDirection (movement turning_player) = Vector3_new 0 0 (- 1)"
    "body_velocity (physicsBody turning_player) = Vector3_new 0 0 (- 8)"
    "\<not> isJumping turning_player" "\<not> isSprinting turning_player"
    by (simp_all add: turning_player_def player0_def Player_new_def landed_body_def
        Euler_new_def Movement_new_def)
  have d: "moveDirection (movement ?a) = Vector3_new 0 0 1"
    by (simp add: aim_moveDirection moveDirection_calc r Let_def yawDirection_def lengthSq_def
        Vector3_new_def normalize_def divideScalar_def multiplyScalar_def vec_length_z)
  have t: "targetVelocity (movement ?a) = \<lparr>vec_x = 0, vec_y = 0, vec_z = 6\<rparr>"
    by (simp add: aim_targetVelocity d r multiplyScalar_def Vector3_new_def walkSpeed_def)
  have s: "horizontalSpeed turning_player = 8"
    by (simp add: horizontalSpeed_def r horizontal_def Vector3_new_def vec_length_z)
  have h: "lengthSq (moveInput turning_player) \<noteq> 0 \<and> lengthSq (lastDirection (movement turning_player)) \<noteq> 0
       \<and> dot (lastDirection (movement turning_player)) (moveDirection (movement ?a))
            < directionChangeThreshold
       \<and> horizontalSpeed turning_player = 8.0
       \<and> \<not> (isJumping turning_player \<and> jumpCount turning_player = 1)"
    by (simp add: r d s lengthSq_def dot_def Vector3_new_def directionChangeThreshold_def)
  note c5 = C5_momentum_blend[where p = turning_player and now = 1010 and dt = "1 / 120"]
  note c5a = C5_momentum_blend[where p = "?a" and now = 1010 and dt = "1 / 120"]
  from c5 h have 1: "hasChangedDirection (movement ?a)"
    and 2: "vec_x (body_velocity (physicsBody (Movement_update 1010 (1 / 120) turning_player))) =
           vec_x (body_velocity (physicsBody turning_player)) * 0.9
             + vec_x (targetVelocity (movement ?a)) * 0.1"
    and 3: "vec_z (body_velocity (physicsBody (Movement_update 1010 (1 / 120) turning_player))) =
           vec_z (body_velocity (physicsBody turning_player)) * 0.9
             + vec_z (targetVelocity (movement ?a)) * 0.1"
    by blast+
  have c: "2.0 < vec_length (currentVelocity ?a)"
    by (simp add: currentVelocity_def aim_frame r horizontal_def Vector3_new_def vec_length_z)
  from c5a 1 c have 4: "vec_z (blendVelocity (1 / 120) ?a) =
          vec_z (body_velocity (physicsBody ?a)) * 0.9 + vec_z (targetVelocity (movement ?a)) * 0.1"
    by blast
  show ?thesis
    using 1 2 3 4 by (simp add: aim_frame r t Vector3_new_def)
qed

section \<open>A jump press in the air\<close>

lemma processJump_blocked:
  assumes "\<not> onGround s" "\<not> jt - lastGroundedTime s < coyoteTime"
    "jt - lastJumpTime s < 100 \<or> maxJumps s \<le> jumpCount s"
  shows "processJump jt s = (False, s)"
  using assms by (auto simp add: processJump_def Let_def)

lemma update_jump_blocked:
  assumes "\<not> onGround s"
    and "now - jumpBufferTime s < jumpBufferWindow \<Longrightarrow>
         \<not> jt - lastGroundedTime s < coyoteTime
         \<and> (jt - lastJumpTime s < 100 \<or> maxJumps s \<le> jumpCount s)"
  shows "update_jump now jt s =
     s\<lparr>jumpRequested := jumpRequested s \<and> now - jumpBufferTime s < jumpBufferWindow\<rparr>"
proof (cases "now - jumpBufferTime s < jumpBufferWindow")
  case True
  with assms(2) have "processJump jt s = (False, s)"
    by (intro processJump_blocked[OF assms(1)]) simp_all
  with True show ?thesis by (simp add: update_jump_def)
next
  case False
  then show ?thesis by (simp add: update_jump_def)
qed

lemma update_ground_airborne:
  assumes "\<not> onGround s" "\<not> body_onGround (physicsBody s)"
  shows "update_ground now s =
     s\<lparr>position := body_position (physicsBody s), velocity := body_velocity (physicsBody s)\<rparr>"
  using assms by (simp add: update_ground_def Let_def)

lemma Player_update_blocked:
  assumes "\<not> onGround s" "\<not> body_onGround (physicsBody s)"
    and "now_update clk - jumpBufferTime s < jumpBufferWindow \<Longrightarrow>
         \<not> now_jump clk - lastGroundedTime s < coyoteTime
         \<and> (now_jump clk - lastJumpTime s < 100 \<or> maxJumps s \<le> jumpCount s)"
  shows "Player_update clk dt s =
     Movement_update (now_move clk) dt
       (s\<lparr>position := body_position (physicsBody s), velocity := body_velocity (physicsBody s),
          jumpRequested := jumpRequested s \<and> now_update clk - jumpBufferTime s < jumpBufferWindow\<rparr>)"
proof -
  let ?g = "s\<lparr>position := body_position (physicsBody s), velocity := body_velocity (physicsBody s)\<rparr>"
  have "update_jump (now_update clk) (now_jump clk) ?g =
     ?g\<lparr>jumpRequested := jumpRequested ?g \<and> now_update clk - jumpBufferTime ?g < jumpBufferWindow\<rparr>"
    by (rule update_jump_blocked) (use assms in simp_all)
  then show ?thesis
    by (simp add: Player_update_def update_ground_airborne[OF assms(1,2)])
qed

lemma blocked_frame:
  assumes "\<not> onGround s" "\<not> body_onGround (physicsBody s)"
    and "now_update clk - jumpBufferTime s < jumpBufferWindow \<Longrightarrow>
         \<not> now_jump clk - lastGroundedTime s < coyoteTime
         \<and> (now_jump clk - lastJumpTime s < 100 \<or> maxJumps s \<le> jumpCount s)"
  shows "jump_state (Player_update clk dt s) = jump_state s"
    and "vec_y (body_velocity (physicsBody (Player_update clk dt s))) =
         vec_y (body_velocity (physicsBody s))"
    and "jumpRequested (Player_update clk dt s) =
         (jumpRequested s \<and> now_update clk - jumpBufferTime s < jumpBufferWindow)"
  by (simp_all add: Player_update_blocked[OF assms] jump_state_def Movement_update_frame
      Movement_update_body)

lemma blocked_frame_of:
  assumes js: "jump_state s = jump_state p"
    and p: "\<not> onGround p" "\<not> body_onGround (physicsBody p)"
    and b: "airborne_blocked p (Frame clk dt)"
  shows "jump_state (Player_update clk dt s) = jump_state p"
    and "vec_y (body_velocity (physicsBody (Player_update clk dt s))) =
         vec_y (body_velocity (physicsBody s))"
    and "jumpRequested (Player_update clk dt s) =
         (jumpRequested s \<and> now_update clk - jumpBufferTime p < jumpBufferWindow)"
proof -
  have f: "\<not> onGround s" "\<not> body_onGround (physicsBody s)"
    "jumpBufferTime s = jumpBufferTime p"
    using js p by (simp_all add: jump_state_def)
  have c: "\<not> now_jump clk - lastGroundedTime s < coyoteTime
         \<and> (now_jump clk - lastJumpTime s < 100 \<or> maxJumps s \<le> jumpCount s)"
    if "now_update clk - jumpBufferTime s < jumpBufferWindow"
    using that js b by (simp add: jump_state_def)
  note r = blocked_frame[OF f(1,2) c, of dt]
  from r(1) js show "jump_state (Player_update clk dt s) = jump_state p" by simp
  from r(2) show "vec_y (body_velocity (physicsBody (Player_update clk dt s))) =
         vec_y (body_velocity (physicsBody s))" .
  from r(3) f(3) show "jumpRequested (Player_update clk dt s) =
         (jumpRequested s \<and> now_update clk - jumpBufferTime p < jumpBufferWindow)" by simp
qed

lemma step_blocked:
  assumes "jump_state s = jump_state p" "\<not> onGround p" "\<not> body_onGround (physicsBody p)"
    "airborne_blocked p e"
  shows "jump_state (step s e) = jump_state p"
    and "jumpRequested (step s e) \<Longrightarrow> jumpRequested s \<and> \<not> expiring p e"
proof -
  show "jump_state (step s e) = jump_state p"
  proof (cases e)
    case (KeyDown k t)
    with assms show ?thesis
      by (cases k) (simp_all add: jump_state_def setMoveX_def setMoveZ_def)
  next
    case (KeyUp k)
    with assms show ?thesis
      by (cases k) (simp_all add: jump_state_def setMoveX_def setMoveZ_def)
  next
    case (MouseMove dx dy)
    with assms show ?thesis by (simp add: jump_state_def rotate_def Let_def)
  next
    case (Physics b)
    with assms show ?thesis by (simp add: jump_state_def)
  next
    case (Spawn spawnPos rotation)
    with assms show ?thesis
      by (simp add: jump_state_def setPlayerSpawn_def Let_def split: option.split)
  next
    case (Frame clk dt)
    with assms(4) have "airborne_blocked p (Frame clk dt)" by simp
    from blocked_frame_of(1)[OF assms(1-3) this] Frame show ?thesis by simp
  qed
  assume r: "jumpRequested (step s e)"
  show "jumpRequested s \<and> \<not> expiring p e"
  proof (cases e)
    case (KeyDown k t)
    with assms r show ?thesis
      by (cases k) (simp_all add: setMoveX_def setMoveZ_def)
  next
    case (KeyUp k)
    with assms r show ?thesis
      by (cases k) (simp_all add: setMoveX_def setMoveZ_def)
  next
    case (MouseMove dx dy)
    with assms r show ?thesis by (simp add: rotate_def Let_def)
  next
    case (Physics b)
    with assms r show ?thesis by simp
  next
    case (Spawn spawnPos rotation)
    with assms r show ?thesis
      by (simp add: setPlayerSpawn_def Let_def split: option.splits)
  next
    case (Frame clk dt)
    with assms(4) have "airborne_blocked p (Frame clk dt)" by simp
    from blocked_frame_of(3)[OF assms(1-3) this] Frame r show ?thesis by simp
  qed
qed

lemma run_blocked:
  assumes "jump_state s = jump_state p" "\<not> onGround p" "\<not> body_onGround (physicsBody p)"
    "\<forall>e\<in>set es. airborne_blocked p e"
  shows "jump_state (run s es) = jump_state p"
  using assms(1,4)
proof (induction es arbitrary: s)
  case Nil
  then show ?case by simp
next
  case (Cons e es)
  from Cons.prems have "airborne_blocked p e" by simp
  from step_blocked(1)[OF Cons.prems(1) assms(2,3) this]
  have "jump_state (step s e) = jump_state p" .
  from Cons.IH[OF this] Cons.prems(2) show ?case by simp
qed

lemma run_request:
  assumes "jump_state s = jump_state p" "\<not> onGround p" "\<not> body_onGround (physicsBody p)"
    "\<forall>e\<in>set es. airborne_blocked p e" "jumpRequested (run s es)"
  shows "jumpRequested s \<and> (\<forall>e\<in>set es. \<not> expiring p e)"
  using assms(1,4,5)
proof (induction es arbitrary: s)
  case Nil
  then show ?case by simp
next
  case (Cons e es)
  from Cons.prems have b: "airborne_blocked p e" by simp
  from step_blocked(1)[OF Cons.prems(1) assms(2,3) b]
  have js: "jump_state (step s e) = jump_state p" .
  from Cons.IH[OF js] Cons.prems(2,3)
  have i: "jumpRequested (step s e)" "\<forall>e\<in>set es. \<not> expiring p e" by simp_all
  from step_blocked(2)[OF Cons.prems(1) assms(2,3) b i(1)] i(2) show ?case by simp
qed

lemma run_append: "run p (es @ fs) = run (run p es) fs"
  by (induction es arbitrary: p) simp_all


text \<open>
  Claim C1, as the code has it. Take a player in the air (with a jump press latched) and a
  run of events in which no new press arrives, the body never touches the ground, and every
  frame that falls inside the buffer window of the press finds the player outside the
  coyote window and unable to air-jump, because the cooldown is still running or
  \<^verbatim>\<open>jumpCount\<close> has reached \<^verbatim>\<open>maxJumps\<close>; frames after the window are unconstrained, since
  \<^verbatim>\<open>processJump\<close> is not called on them. Then the press is dropped: the jump counter and
  the time of the last jump stay as they were, no frame changes the vertical velocity of
  the body, the request is pending after a frame exactly if it was pending before and the
  buffer window has not elapsed, and it is no longer pending at the end of a run that holds
  a frame after the window. If instead the press is processed inside the buffer window with
  the cooldown elapsed and \<^verbatim>\<open>jumpCount < maxJumps\<close>, it is consumed as an air jump: the
  counter is incremented, the vertical velocity becomes \<open>0.9 * jumpForce\<close> and the request
  is cleared.
\<close>

theorem C1_blocked_press_is_dropped:
  assumes "\<not> onGround p" "\<not> body_onGround (physicsBody p)"
    and "\<forall>e\<in>set es. airborne_blocked p e"
  shows "jumpCount (run p es) = jumpCount p \<and> lastJumpTime (run p es) = lastJumpTime p
    \<and> (\<forall>es1 clk dt es2. es = es1 @ Frame clk dt # es2 \<longrightarrow>
          vec_y (body_velocity (physicsBody (run p (es1 @ [Frame clk dt])))) =
            vec_y (body_velocity (physicsBody (run p es1)))
          \<and> jumpRequested (run p (es1 @ [Frame clk dt])) =
              (jumpRequested (run p es1) \<and> now_update clk - jumpBufferTime p < jumpBufferWindow))
    \<and> ((\<exists>e\<in>set es. expiring p e) \<longrightarrow> \<not> jumpRequested (run p es))
    \<and> (jumpRequested q \<and> now - jumpBufferTime q < jumpBufferWindow
        \<and> \<not> jt - lastJumpTime q < 100 \<and> \<not> onGround q
        \<and> \<not> jt - lastGroundedTime q < coyoteTime \<and> jumpCount q < maxJumps q \<longrightarrow>
          jumpCount (update_jump now jt q) = jumpCount q + 1
          \<and> vec_y (body_velocity (physicsBody (update_jump now jt q))) = jumpForce * 0.9
          \<and> \<not> jumpRequested (update_jump now jt q))"
proof (intro conjI allI impI)
  have "jump_state (run p es) = jump_state p"
    by (rule run_blocked[OF refl assms])
  then show "jumpCount (run p es) = jumpCount p" "lastJumpTime (run p es) = lastJumpTime p"
    by (simp_all add: jump_state_def)
next
  fix es1 clk dt es2
  assume e: "es = es1 @ Frame clk dt # es2"
  let ?s = "run p es1"
  from e assms(3) have b1: "\<forall>e\<in>set es1. airborne_blocked p e"
    and bf: "airborne_blocked p (Frame clk dt)" by simp_all
  have js: "jump_state ?s = jump_state p"
    by (rule run_blocked[OF refl assms(1,2) b1])
  show "vec_y (body_velocity (physicsBody (run p (es1 @ [Frame clk dt])))) =
            vec_y (body_velocity (physicsBody ?s))"
    by (simp add: run_append blocked_frame_of(2)[OF js assms(1,2) bf])
  show "jumpRequested (run p (es1 @ [Frame clk dt])) =
      (jumpRequested ?s \<and> now_update clk - jumpBufferTime p < jumpBufferWindow)"
    by (simp add: run_append blocked_frame_of(3)[OF js assms(1,2) bf])
next
  assume x: "\<exists>e\<in>set es. expiring p e"
  show "\<not> jumpRequested (run p es)"
  proof
    assume "jumpRequested (run p es)"
    from run_request[OF refl assms this] x show False by blast
  qed
next
  assume a: "jumpRequested q \<and> now - jumpBufferTime q < jumpBufferWindow
        \<and> \<not> jt - lastJumpTime q < 100 \<and> \<not> onGround q
        \<and> \<not> jt - lastGroundedTime q < coyoteTime \<and> jumpCount q < maxJumps q"
  then have u: "update_jump now jt q =
      (setVelocityY (jumpForce * 0.9) q)
        \<lparr>jumpCount := jumpCount q + 1, lastJumpTime := jt, jumpRequested := False\<rparr>"
    by (auto simp add: update_jump_def processJump_def Let_def)
  show "jumpCount (update_jump now jt q) = jumpCount q + 1"
    "vec_y (body_velocity (physicsBody (update_jump now jt q))) = jumpForce * 0.9"
    "\<not> jumpRequested (update_jump now jt q)"
    by (simp_all add: u setVelocityY_def)
qed


lemma air_jump_run:
  "jumpCount (run player0 air_jump_events) = 1"
  "jumpCount (run player0 (take 2 air_jump_events)) = 1"
  "vec_y (body_velocity (physicsBody (run player0 (take 2 air_jump_events)))) = jumpForce * 0.9"
  "\<not> jumpRequested (run player0 air_jump_events)"
  by (simp_all add: air_jump_events_def waiting_frames_def run_eval_defs jumpForce_def)


text \<open>
  The theorem at the constructed player with a press latched at time 1000 and the counter at
  0, whose first frame comes at time 1300 (the press is dropped, the counter stays 0); at a
  player who jumped at time 950, with a frame at 1010 (cooldown running) and one at 1210
  (window elapsed); and at the constructed player processed at time 1010 (the press becomes
  an air jump).
\<close>

theorem C1_blocked_press_is_dropped_witness:
  "jumpRequested pressed_player \<and> jumpCount pressed_player = 0
   \<and> jumpCount (run pressed_player late_frames) = 0
   \<and> vec_y (body_velocity (physicsBody (run pressed_player late_frames))) =
       vec_y (body_velocity (physicsBody pressed_player))
   \<and> \<not> jumpRequested (run pressed_player late_frames)
   \<and> jumpRequested cooling_player
   \<and> jumpCount (run cooling_player cooling_frames) = 1
   \<and> lastJumpTime (run cooling_player cooling_frames) = 950
   \<and> vec_y (body_velocity (physicsBody (run cooling_player (take 1 cooling_frames)))) =
       vec_y (body_velocity (physicsBody cooling_player))
   \<and> jumpRequested (run cooling_player (take 1 cooling_frames))
   \<and> \<not> jumpRequested (run cooling_player cooling_frames)
   \<and> jumpCount (update_jump 1010 1010 pressed_player) = 1
   \<and> vec_y (body_velocity (physicsBody (update_jump 1010 1010 pressed_player)))
        = jumpForce * 0.9"
proof -
  have p: "\<not> onGround pressed_player" "\<not> body_onGround (physicsBody pressed_player)"
    "jumpCount pressed_player = 0" "jumpBufferTime pressed_player = 1000"
    "jumpRequested pressed_player"
    by (simp_all add: pressed_player_def player0_def Player_new_def)
  have pb: "\<forall>e\<in>set late_frames. airborne_blocked pressed_player e"
    by (simp add: late_frames_def tick_def p jumpBufferWindow_def)
  have px: "\<exists>e\<in>set late_frames. expiring pressed_player e"
    by (simp add: late_frames_def tick_def p jumpBufferWindow_def)
  have c: "\<not> onGround cooling_player" "\<not> body_onGround (physicsBody cooling_player)"
    "jumpCount cooling_player = 1" "lastJumpTime cooling_player = 950"
    "jumpBufferTime cooling_player = 1000" "jumpRequested cooling_player"
    "lastGroundedTime cooling_player = 0"
    by (simp_all add: cooling_player_def player0_def Player_new_def)
  have cb: "\<forall>e\<in>set cooling_frames. airborne_blocked cooling_player e"
    by (simp add: cooling_frames_def tick_def c jumpBufferWindow_def coyoteTime_def)
  have cx: "\<exists>e\<in>set cooling_frames. expiring cooling_player e"
    by (simp add: cooling_frames_def tick_def c jumpBufferWindow_def)
  have q: "jumpRequested pressed_player
        \<and> (1010::real) - jumpBufferTime pressed_player < jumpBufferWindow
        \<and> \<not> (1010::real) - lastJumpTime pressed_player < 100
        \<and> \<not> onGround pressed_player
        \<and> \<not> (1010::real) - lastGroundedTime pressed_player < coyoteTime
        \<and> jumpCount pressed_player < maxJumps pressed_player"
    by (simp add: pressed_player_def player0_def Player_new_def config_or_def
        jumpBufferWindow_def coyoteTime_def)
  note tp = C1_blocked_press_is_dropped[OF p(1,2) pb,
      where q = pressed_player and now = 1010 and jt = 1010]
  note tc = C1_blocked_press_is_dropped[OF c(1,2) cb,
      where q = pressed_player and now = 1010 and jt = 1010]
  have l1: "late_frames = [] @ Frame (tick 1300) (1 / 120) # []"
    and l2: "late_frames = [] @ [Frame (tick 1300) (1 / 120)]"
    and e1: "cooling_frames = [] @ Frame (tick 1010) (1 / 120) # drop 1 cooling_frames"
    and e3: "take 1 cooling_frames = [] @ [Frame (tick 1010) (1 / 120)]"
    by (simp_all add: late_frames_def cooling_frames_def)
  from tp have 1: "jumpCount (run pressed_player late_frames) = 0"
    by (simp add: p)
  from tp l1 have "vec_y (body_velocity (physicsBody
        (run pressed_player ([] @ [Frame (tick 1300) (1 / 120)])))) =
      vec_y (body_velocity (physicsBody (run pressed_player [])))"
    by blast
  then have 2: "vec_y (body_velocity (physicsBody (run pressed_player late_frames))) =
       vec_y (body_velocity (physicsBody pressed_player))"
    unfolding l2[symmetric] by simp
  from tp px have 3: "\<not> jumpRequested (run pressed_player late_frames)" by blast
  from tc have 4: "jumpCount (run cooling_player cooling_frames) = 1"
    "lastJumpTime (run cooling_player cooling_frames) = 950"
    by (simp_all add: c)
  from tc e1 have "vec_y (body_velocity (physicsBody
        (run cooling_player ([] @ [Frame (tick 1010) (1 / 120)])))) =
      vec_y (body_velocity (physicsBody (run cooling_player [])))
      \<and> jumpRequested (run cooling_player ([] @ [Frame (tick 1010) (1 / 120)])) =
         (jumpRequested (run cooling_player []) \<and>
          now_update (tick 1010) - jumpBufferTime cooling_player < jumpBufferWindow)"
    by blast
  then have 5: "vec_y (body_velocity (physicsBody (run cooling_player (take 1 cooling_frames)))) =
       vec_y (body_velocity (physicsBody cooling_player))"
    and 6: "jumpRequested (run cooling_player (take 1 cooling_frames))"
    unfolding e3[symmetric] by (simp_all add: c tick_def jumpBufferWindow_def)
  from tc cx have 7: "\<not> jumpRequested (run cooling_player cooling_frames)" by blast
  from tp q have 8: "jumpCount (update_jump 1010 1010 pressed_player) =
      jumpCount pressed_player + 1"
    "vec_y (body_velocity (physicsBody (update_jump 1010 1010 pressed_player)))
        = jumpForce * 0.9"
    by blast+
  from 1 2 3 4 5 6 7 8 p(3,5) c(6) show ?thesis
    by simp
qed


text \<open>
  Claim C1 as stated fails: the constructed player is in the air, outside the coyote window,
  with the counter at 0; a press at time 1000 is consumed by the frame at time 1010 as an
  air jump, which sets the counter to 1 and the vertical velocity to \<open>0.9 * jumpForce\<close>.
\<close>

theorem C1_counterexample:
  "\<not> onGround player0 \<and> \<not> body_onGround (physicsBody player0) \<and> jumpCount player0 = 0
   \<and> vec_y (body_velocity (physicsBody player0)) = 0
   \<and> \<not> (1010 - lastGroundedTime player0 < coyoteTime)
   \<and> jumpCount (run player0 (take 2 air_jump_events)) = 1
   \<and> vec_y (body_velocity (physicsBody (run player0 (take 2 air_jump_events)))) = jumpForce * 0.9
   \<and> jumpCount (run player0 air_jump_events) = 1"
  by (simp add: air_jump_run) (simp add: player0_def Player_new_def Vector3_new_def coyoteTime_def)

end
